theory Spec2Isabelle
  imports Main "HOL-Library.AList"
begin

section \<open>JavaScript values\<close>

text \<open>
  The emitter handles values of TypeScript type \<open>any\<close>: event arguments, the message
  handed to the parser and the body handed to the Service Bus sender. They are modelled
  by one datatype of JavaScript values. \<open>JNum\<close> carries the integer-valued numbers (the
  only numbers the emitter itself creates are enum members); \<open>JFunction\<close> is a function
  value, named only to tell two functions apart; an object is its list of own
  properties in insertion order. Symbols, BigInts, Buffers and objects with a
  \<open>toJSON\<close> method are outside the model. A string is the list of its characters,
  so \<open>s[0]\<close> is the head of a string that is not empty.
\<close>

datatype jsval =
    JUndefined
  | JNull
  | JBool bool
  | JNum int
  | JStr string
  | JFunction string
  | JArray "jsval list"
  | JObject "(string \<times> jsval) list"

text \<open>The \<open>typeof\<close> operator.\<close>

fun typeof :: "jsval \<Rightarrow> string" where
  "typeof JUndefined = ''undefined''"
| "typeof JNull = ''object''"
| "typeof (JBool b) = ''boolean''"
| "typeof (JNum n) = ''number''"
| "typeof (JStr s) = ''string''"
| "typeof (JFunction f) = ''function''"
| "typeof (JArray vs) = ''object''"
| "typeof (JObject ps) = ''object''"

text \<open>
  Reading a property \<open>v.k\<close> of a value that is an object: a missing property reads as
  \<open>undefined\<close>. It is used to state what a message holds.
\<close>

fun jget :: "jsval \<Rightarrow> string \<Rightarrow> jsval" where
  "jget (JObject ps) k = (case map_of ps k of Some v \<Rightarrow> v | None \<Rightarrow> JUndefined)"
| "jget v k = JUndefined"

text \<open>Whether an object has an own property \<open>k\<close> (\<open>k in v\<close>).\<close>

fun jhas :: "jsval \<Rightarrow> string \<Rightarrow> bool" where
  "jhas (JObject ps) k = (map_of ps k \<noteq> None)"
| "jhas v k = False"

text \<open>
  \<open>Object.assign(target, ...sources)\<close> on plain objects: every own property of every
  source is set on the target in turn; setting a property that exists keeps its place,
  a new property is added last.
\<close>

definition Object_assign :: "(string \<times> jsval) list \<Rightarrow> (string \<times> jsval) list list \<Rightarrow> (string \<times> jsval) list" where
  "Object_assign target sources =
     foldl (\<lambda>t s. foldl (\<lambda>t' (k, v). AList.update k v t') t s) target sources"

subsection \<open>JSON.stringify\<close>

text \<open>
  \<open>JSON.stringify(value)\<close> with no replacer and no indentation, after the ECMAScript
  operations \<open>SerializeJSONProperty\<close>, \<open>SerializeJSONArray\<close>, \<open>SerializeJSONObject\<close> and
  \<open>QuoteJSONString\<close>: \<open>undefined\<close> and functions have no JSON text, so they are left out
  of an object and written \<open>null\<close> in an array.
\<close>

fun digits :: "nat \<Rightarrow> string" where
  "digits n =
     (if n < 10 then [''0123456789'' ! n]
      else digits (n div 10) @ [''0123456789'' ! (n mod 10)])"

definition Number_toString :: "int \<Rightarrow> string" where
  "Number_toString i = (if i < 0 then ''-'' @ digits (nat (- i)) else digits (nat i))"

definition hexdigit :: "nat \<Rightarrow> char" where
  "hexdigit n = ''0123456789abcdef'' ! (n mod 16)"

definition QuoteJSONChar :: "char \<Rightarrow> string" where
  "QuoteJSONChar c =
     (if c = CHR 0x08 then [CHR 0x5C, CHR ''b'']
      else if c = CHR 0x09 then [CHR 0x5C, CHR ''t'']
      else if c = CHR 0x0A then [CHR 0x5C, CHR ''n'']
      else if c = CHR 0x0C then [CHR 0x5C, CHR ''f'']
      else if c = CHR 0x0D then [CHR 0x5C, CHR ''r'']
      else if c = CHR 0x22 then [CHR 0x5C, CHR 0x22]
      else if c = CHR 0x5C then [CHR 0x5C, CHR 0x5C]
      else if of_char c < (32::nat)
        then [CHR 0x5C, CHR ''u'', CHR ''0'', CHR ''0'',
              hexdigit (of_char c div 16), hexdigit (of_char c)]
      else [c])"

definition QuoteJSONString :: "string \<Rightarrow> string" where
  "QuoteJSONString s = [CHR 0x22] @ concat (map QuoteJSONChar s) @ [CHR 0x22]"

fun join :: "string \<Rightarrow> string list \<Rightarrow> string" where
  "join sep [] = []"
| "join sep [x] = x"
| "join sep (x # y # ys) = x @ sep @ join sep (y # ys)"

fun SerializeJSONProperty :: "jsval \<Rightarrow> string option"
  and SerializeJSONArray :: "jsval list \<Rightarrow> string list"
  and SerializeJSONObject :: "(string \<times> jsval) list \<Rightarrow> string list" where
  "SerializeJSONProperty JUndefined = None"
| "SerializeJSONProperty (JFunction f) = None"
| "SerializeJSONProperty JNull = Some ''null''"
| "SerializeJSONProperty (JBool b) = Some (if b then ''true'' else ''false'')"
| "SerializeJSONProperty (JNum i) = Some (Number_toString i)"
| "SerializeJSONProperty (JStr s) = Some (QuoteJSONString s)"
| "SerializeJSONProperty (JArray vs) = Some (''['' @ join '','' (SerializeJSONArray vs) @ '']'')"
| "SerializeJSONProperty (JObject ps) = Some (''{'' @ join '','' (SerializeJSONObject ps) @ ''}'')"
| "SerializeJSONArray [] = []"
| "SerializeJSONArray (v # vs) =
     (case SerializeJSONProperty v of None \<Rightarrow> ''null'' | Some s \<Rightarrow> s) # SerializeJSONArray vs"
| "SerializeJSONObject [] = []"
| "SerializeJSONObject ((k, v) # ps) =
     (case SerializeJSONProperty v of
        None \<Rightarrow> SerializeJSONObject ps
      | Some s \<Rightarrow> (QuoteJSONString k @ '':'' @ s) # SerializeJSONObject ps)"

definition JSON_stringify :: "jsval \<Rightarrow> jsval" where
  "JSON_stringify v = (case SerializeJSONProperty v of None \<Rightarrow> JUndefined | Some s \<Rightarrow> JStr s)"

section \<open>Declarations shared by both versions of the emitter\<close>

text \<open>
  The repository holds two versions of the emitter. \<^verbatim>\<open>src/lib/index.ts\<close> routes by
  the Service Bus \<open>subject\<close> (definitions with the suffix \<open>_sr\<close>);
  \<^verbatim>\<open>src/unnamed/part_003\<close> routes by application properties (suffix \<open>_pr\<close>); the
  compiled \<^verbatim>\<open>src/dist\<close> is this second version with the option \<open>key\<close> named
  \<open>topic\<close>. The declarations of this section are the same text in both files and are
  modelled once.
\<close>

definition UID :: string where
  "UID = ''emitter''"

text \<open>
  \<open>PacketType.EVENT\<close> of \<open>socket.io-parser\<close>; both test files of the repository expect
  the number 2 (\<^verbatim>\<open>expect(packet.type).to.be(2); // PacketType.EVENT\<close>).
\<close>

definition PacketType_EVENT :: int where
  "PacketType_EVENT = 2"

text \<open>
  \<open>interface Parser { encode: (msg: any) => any }\<close>. The encoder is a function of the
  message; an encoder that throws is outside the model.
\<close>

record Parser =
  encode :: "jsval \<Rightarrow> jsval"

text \<open>\<open>EmitterOptions\<close>: \<open>None\<close> is an absent property.\<close>

record EmitterOptions =
  key :: "string option"
  parser :: "Parser option"

record BroadcastOptions =
  nsp :: string
  broadcastChannel :: string
  requestChannel :: string
  parser :: Parser

text \<open>
  \<open>BroadcastFlags\<close> is a plain object with the optional properties \<open>volatile\<close> and
  \<open>compress\<close>; it is kept as the list of its properties, so that an unset flag differs
  from one set to \<open>false\<close>.
\<close>

type_synonym BroadcastFlags = "(string \<times> jsval) list"

text \<open>
  The message object handed to \<open>sbSender.sendMessages\<close>. The first version sets
  \<open>subject\<close>, the second \<open>applicationProperties\<close>; \<open>None\<close> is an absent property.
\<close>

record ServiceBusMessage =
  body :: jsval
  contentType :: string
  subject :: "string option"
  applicationProperties :: "(string \<times> jsval) list option"

text \<open>
  The \<open>ServiceBusSender\<close> is the one external collaborator. Every builder derived from a
  root emitter holds the same sender, so it is modelled as the state threaded through
  the terminal calls: the list of messages handed to \<open>sendMessages\<close> so far, oldest
  first. \<open>sendMessage\<close> is an \<open>async\<close> method called without \<open>await\<close>: its body runs up
  to the call of \<open>sendMessages\<close> before the caller continues, and the promise it returns
  is dropped, so the outcome of the send is not part of the model.
\<close>

type_synonym ServiceBusSender = "ServiceBusMessage list"

datatype error = Error string

text \<open>A parameter of type \<open>string | string[]\<close>, and \<open>Array.isArray(room) ? room : [room]\<close>.\<close>

datatype string_or_array = Single string | Multiple "string list"

fun listify :: "string_or_array \<Rightarrow> string list" where
  "listify (Single r) = [r]"
| "listify (Multiple rs) = rs"

text \<open>
  A \<open>Set<string>\<close> is the list of its elements in insertion order, without repetition.
  \<open>Set.prototype.add\<close> leaves a set that holds the element as it is.
\<close>

definition Set_add :: "string list \<Rightarrow> string \<Rightarrow> string list" where
  "Set_add s r = (if r \<in> set s then s else s @ [r])"

definition RESERVED_EVENTS :: "string list" where
  "RESERVED_EVENTS =
     [''connect'', ''connect_error'', ''disconnect'', ''disconnecting'',
      ''newListener'', ''removeListener'']"

subsection \<open>Emitter: constructor and \<open>of\<close>\<close>

record Emitter =
  opts :: EmitterOptions
  broadcastOptions :: BroadcastOptions
  nsp :: string

text \<open>
  \<open>Object.assign({key: ..., parser: ...}, opts)\<close> on the two optional properties of
  \<open>EmitterOptions\<close>; \<open>opts\<close> itself may be \<open>undefined\<close>.
\<close>

definition Object_assign_opts :: "EmitterOptions \<Rightarrow> EmitterOptions option \<Rightarrow> EmitterOptions" where
  "Object_assign_opts target source =
     (case source of
        None \<Rightarrow> target
      | Some s \<Rightarrow>
          \<lparr>key = (case key s of Some k \<Rightarrow> Some k | None \<Rightarrow> key target),
           EmitterOptions.parser =
             (case EmitterOptions.parser s of Some p \<Rightarrow> Some p
              | None \<Rightarrow> EmitterOptions.parser target)\<rparr>)"

text \<open>String concatenation \<open>this.opts.key + "#"\<close> with a key of type \<open>string | undefined\<close>.\<close>

definition key_string :: "string option \<Rightarrow> string" where
  "key_string k = (case k of Some s \<Rightarrow> s | None \<Rightarrow> ''undefined'')"

text \<open>
  The constructor \<open>new Emitter(sbSender, opts?, nsp = "/")\<close>. \<open>msgpackEncode\<close> is the
  encoder imported from the MessagePack library (\<open>notepack.io\<close> in the first version,
  \<open>@msgpack/msgpack\<close> in the second); it is not part of the repository and is taken as
  a parameter. After the merge the parser is always present, so the second branch of
  the \<open>case\<close> for \<open>this.opts.parser!\<close> is never taken.
\<close>

definition Emitter_new :: "(jsval \<Rightarrow> jsval) \<Rightarrow> EmitterOptions option \<Rightarrow> string option \<Rightarrow> Emitter" where
  "Emitter_new msgpackEncode opts_arg nsp_arg =
     (let nsp' = (case nsp_arg of None \<Rightarrow> ''/'' | Some n \<Rightarrow> n);
          opts' = Object_assign_opts
                    \<lparr>key = Some ''socket.io'',
                     EmitterOptions.parser = Some \<lparr>encode = msgpackEncode\<rparr>\<rparr> opts_arg
      in \<lparr>opts = opts',
          broadcastOptions =
            \<lparr>BroadcastOptions.nsp = nsp',
             broadcastChannel = key_string (key opts') @ ''#'' @ nsp' @ ''#'',
             requestChannel = key_string (key opts') @ ''-request#'' @ nsp' @ ''#'',
             parser = (case EmitterOptions.parser opts' of
                         Some p \<Rightarrow> p | None \<Rightarrow> \<lparr>encode = msgpackEncode\<rparr>)\<rparr>,
          nsp = nsp'\<rparr>)"

text \<open>
  \<open>of(nsp)\<close>: \<open>(nsp[0] !== "/" ? "/" : "") + nsp\<close>. For the empty string \<open>nsp[0]\<close> is
  \<open>undefined\<close>, which differs from \<open>"/"\<close>.
\<close>

definition Emitter_of :: "(jsval \<Rightarrow> jsval) \<Rightarrow> Emitter \<Rightarrow> string \<Rightarrow> Emitter" where
  "Emitter_of msgpackEncode self nsp_arg =
     Emitter_new msgpackEncode (Some (opts self))
       (Some ((case nsp_arg of
                 [] \<Rightarrow> ''/''
               | c # cs \<Rightarrow> if c \<noteq> CHR ''/'' then ''/'' else '''') @ nsp_arg))"

subsection \<open>BroadcastOperator: the refinements\<close>

record BroadcastOperator =
  broadcastOptions :: BroadcastOptions
  rooms :: "string list"
  exceptRooms :: "string list"
  flags :: BroadcastFlags

text \<open>
  \<open>new BroadcastOperator(sbSender, broadcastOptions)\<close> with the default parameters
  \<open>new Set<string>()\<close>, \<open>new Set<string>()\<close> and \<open>{}\<close>.
\<close>

definition BroadcastOperator_new :: "BroadcastOptions \<Rightarrow> BroadcastOperator" where
  "BroadcastOperator_new bo =
     \<lparr>BroadcastOperator.broadcastOptions = bo, rooms = [], exceptRooms = [], flags = []\<rparr>"

text \<open>
  The refinements on values: a set or object copied by \<open>new Set(this.rooms)\<close> or
  \<open>Object.assign({}, this.flags, ...)\<close> is the same value. The section on the object
  store below models the same methods on references, where a copy is a new object.
\<close>

definition BroadcastOperator_to :: "BroadcastOperator \<Rightarrow> string_or_array \<Rightarrow> BroadcastOperator" where
  "BroadcastOperator_to self room =
     (let rooms' = foldl Set_add (rooms self) (listify room)
      in \<lparr>BroadcastOperator.broadcastOptions = BroadcastOperator.broadcastOptions self,
          rooms = rooms', exceptRooms = exceptRooms self, flags = flags self\<rparr>)"

definition BroadcastOperator_in :: "BroadcastOperator \<Rightarrow> string_or_array \<Rightarrow> BroadcastOperator" where
  "BroadcastOperator_in self room = BroadcastOperator_to self room"

definition BroadcastOperator_except :: "BroadcastOperator \<Rightarrow> string_or_array \<Rightarrow> BroadcastOperator" where
  "BroadcastOperator_except self room =
     (let exceptRooms' = foldl Set_add (exceptRooms self) (listify room)
      in \<lparr>BroadcastOperator.broadcastOptions = BroadcastOperator.broadcastOptions self,
          rooms = rooms self, exceptRooms = exceptRooms', flags = flags self\<rparr>)"

definition BroadcastOperator_compress :: "BroadcastOperator \<Rightarrow> bool \<Rightarrow> BroadcastOperator" where
  "BroadcastOperator_compress self compress =
     (let flags' = Object_assign [] [flags self, [(''compress'', JBool compress)]]
      in \<lparr>BroadcastOperator.broadcastOptions = BroadcastOperator.broadcastOptions self,
          rooms = rooms self, exceptRooms = exceptRooms self, flags = flags'\<rparr>)"

definition BroadcastOperator_volatile :: "BroadcastOperator \<Rightarrow> BroadcastOperator" where
  "BroadcastOperator_volatile self =
     (let flags' = Object_assign [] [flags self, [(''volatile'', JBool True)]]
      in \<lparr>BroadcastOperator.broadcastOptions = BroadcastOperator.broadcastOptions self,
          rooms = rooms self, exceptRooms = exceptRooms self, flags = flags'\<rparr>)"

text \<open>The refinements of \<open>Emitter\<close> start from a new operator.\<close>

definition Emitter_to :: "Emitter \<Rightarrow> string_or_array \<Rightarrow> BroadcastOperator" where
  "Emitter_to self room =
     BroadcastOperator_to (BroadcastOperator_new (Emitter.broadcastOptions self)) room"

definition Emitter_in :: "Emitter \<Rightarrow> string_or_array \<Rightarrow> BroadcastOperator" where
  "Emitter_in self room =
     BroadcastOperator_in (BroadcastOperator_new (Emitter.broadcastOptions self)) room"

definition Emitter_except :: "Emitter \<Rightarrow> string_or_array \<Rightarrow> BroadcastOperator" where
  "Emitter_except self room =
     BroadcastOperator_except (BroadcastOperator_new (Emitter.broadcastOptions self)) room"

definition Emitter_volatile :: "Emitter \<Rightarrow> BroadcastOperator" where
  "Emitter_volatile self =
     BroadcastOperator_volatile (BroadcastOperator_new (Emitter.broadcastOptions self))"

definition Emitter_compress :: "Emitter \<Rightarrow> bool \<Rightarrow> BroadcastOperator" where
  "Emitter_compress self compress =
     BroadcastOperator_compress (BroadcastOperator_new (Emitter.broadcastOptions self)) compress"

text \<open>The arrays \<open>[...this.rooms]\<close> and \<open>[...this.exceptRooms]\<close> of a message.\<close>

definition spread :: "string list \<Rightarrow> jsval" where
  "spread s = JArray (map JStr s)"

section \<open>Terminal calls\<close>

text \<open>
  Every terminal call builds one object, encodes it and hands the result to
  \<open>sendMessage\<close>. The object literal of each method is a definition of its own
  (\<open>..._message_sr\<close>, \<open>..._message_pr\<close>), so that a statement can say what a message
  holds before it is encoded.
\<close>

text \<open>
  \<open>emit\<close> starts the same way in both versions: after the check of the event name it
  builds \<open>data = [ev, ...args]\<close>, \<open>packet\<close> and \<open>opts\<close>.
\<close>

definition emit_packet :: "BroadcastOperator \<Rightarrow> string \<Rightarrow> jsval list \<Rightarrow> jsval" where
  "emit_packet self ev args =
     (let data = JStr ev # args
      in JObject [(''type'', JNum PacketType_EVENT), (''data'', JArray data),
                  (''nsp'', JStr (BroadcastOptions.nsp (BroadcastOperator.broadcastOptions self)))])"

definition emit_opts :: "BroadcastOperator \<Rightarrow> jsval" where
  "emit_opts self =
     JObject [(''rooms'', spread (rooms self)), (''flags'', JObject (flags self)),
              (''except'', spread (exceptRooms self))]"

text \<open>\<open>args[args.length - 1]\<close>: of an empty list it is \<open>undefined\<close>.\<close>

definition last_arg :: "jsval list \<Rightarrow> jsval" where
  "last_arg args = (case args of [] \<Rightarrow> JUndefined | _ \<Rightarrow> last args)"

subsection \<open>First version: routing by subject (\<^verbatim>\<open>src/lib/index.ts\<close>)\<close>

text \<open>The request types of messages between nodes (\<open>enum RequestType\<close>).\<close>

datatype RequestType =
    SOCKETS
  | ALL_ROOMS
  | REMOTE_JOIN
  | REMOTE_LEAVE
  | REMOTE_DISCONNECT
  | REMOTE_FETCH
  | SERVER_SIDE_EMIT

fun RequestType_value :: "RequestType \<Rightarrow> int" where
  "RequestType_value SOCKETS = 0"
| "RequestType_value ALL_ROOMS = 1"
| "RequestType_value REMOTE_JOIN = 2"
| "RequestType_value REMOTE_LEAVE = 3"
| "RequestType_value REMOTE_DISCONNECT = 4"
| "RequestType_value REMOTE_FETCH = 5"
| "RequestType_value SERVER_SIDE_EMIT = 6"

text \<open>\<open>sendMessage(channel, body)\<close>, the same in \<open>Emitter\<close> and \<open>BroadcastOperator\<close>.\<close>

definition sendMessage_sr :: "string \<Rightarrow> jsval \<Rightarrow> ServiceBusSender \<Rightarrow> ServiceBusSender" where
  "sendMessage_sr channel body' sbSender =
     sbSender @
       [\<lparr>body = body', contentType = ''application/octet-stream'',
         subject = Some channel, applicationProperties = None\<rparr>]"

text \<open>
  \<open>emit(ev, ...args)\<close>. A \<open>throw\<close> leaves the sender as it was. The message is the
  array \<open>[UID, packet, opts]\<close>. The channel gets the room appended when
  \<open>this.rooms.size === 1\<close>; \<open>this.rooms.keys().next().value\<close> is then the one element.
\<close>

definition emit_message_sr :: "BroadcastOperator \<Rightarrow> string \<Rightarrow> jsval list \<Rightarrow> jsval" where
  "emit_message_sr self ev args = JArray [JStr UID, emit_packet self ev args, emit_opts self]"

definition emit_channel_sr :: "BroadcastOperator \<Rightarrow> string" where
  "emit_channel_sr self =
     (let channel = broadcastChannel (BroadcastOperator.broadcastOptions self)
      in case rooms self of [r] \<Rightarrow> channel @ r @ ''#'' | _ \<Rightarrow> channel)"

definition BroadcastOperator_emit_sr ::
  "BroadcastOperator \<Rightarrow> string \<Rightarrow> jsval list \<Rightarrow> ServiceBusSender \<Rightarrow> (error + bool) \<times> ServiceBusSender" where
  "BroadcastOperator_emit_sr self ev args sbSender =
     (if ev \<in> set RESERVED_EVENTS
      then (Inl (Error (''\"'' @ ev @ ''\" is a reserved event name'')), sbSender)
      else
        let msg = encode (BroadcastOptions.parser (BroadcastOperator.broadcastOptions self))
                    (emit_message_sr self ev args);
            channel = emit_channel_sr self
        in (Inr True, sendMessage_sr channel msg sbSender))"

definition socketsJoin_message_sr :: "BroadcastOperator \<Rightarrow> string_or_array \<Rightarrow> jsval" where
  "socketsJoin_message_sr self rooms_arg =
     JObject
       [(''type'', JNum (RequestType_value REMOTE_JOIN)),
        (''opts'', JObject [(''rooms'', spread (rooms self)),
                            (''except'', spread (exceptRooms self))]),
        (''rooms'', spread (listify rooms_arg))]"

definition BroadcastOperator_socketsJoin_sr ::
  "BroadcastOperator \<Rightarrow> string_or_array \<Rightarrow> ServiceBusSender \<Rightarrow> (error + unit) \<times> ServiceBusSender" where
  "BroadcastOperator_socketsJoin_sr self rooms_arg sbSender =
     (let request = JSON_stringify (socketsJoin_message_sr self rooms_arg)
      in (Inr (), sendMessage_sr (requestChannel (BroadcastOperator.broadcastOptions self)) request sbSender))"

definition socketsLeave_message_sr :: "BroadcastOperator \<Rightarrow> string_or_array \<Rightarrow> jsval" where
  "socketsLeave_message_sr self rooms_arg =
     JObject
       [(''type'', JNum (RequestType_value REMOTE_LEAVE)),
        (''opts'', JObject [(''rooms'', spread (rooms self)),
                            (''except'', spread (exceptRooms self))]),
        (''rooms'', spread (listify rooms_arg))]"

definition BroadcastOperator_socketsLeave_sr ::
  "BroadcastOperator \<Rightarrow> string_or_array \<Rightarrow> ServiceBusSender \<Rightarrow> (error + unit) \<times> ServiceBusSender" where
  "BroadcastOperator_socketsLeave_sr self rooms_arg sbSender =
     (let request = JSON_stringify (socketsLeave_message_sr self rooms_arg)
      in (Inr (), sendMessage_sr (requestChannel (BroadcastOperator.broadcastOptions self)) request sbSender))"

text \<open>\<open>disconnectSockets(close = false)\<close>: \<open>None\<close> is the omitted argument.\<close>

definition disconnectSockets_message_sr :: "BroadcastOperator \<Rightarrow> bool \<Rightarrow> jsval" where
  "disconnectSockets_message_sr self close =
     JObject
       [(''type'', JNum (RequestType_value REMOTE_DISCONNECT)),
        (''opts'', JObject [(''rooms'', spread (rooms self)),
                            (''except'', spread (exceptRooms self))]),
        (''close'', JBool close)]"

definition BroadcastOperator_disconnectSockets_sr ::
  "BroadcastOperator \<Rightarrow> bool option \<Rightarrow> ServiceBusSender \<Rightarrow> (error + unit) \<times> ServiceBusSender" where
  "BroadcastOperator_disconnectSockets_sr self close_arg sbSender =
     (let close = (case close_arg of None \<Rightarrow> False | Some c \<Rightarrow> c);
          request = JSON_stringify (disconnectSockets_message_sr self close)
      in (Inr (), sendMessage_sr (requestChannel (BroadcastOperator.broadcastOptions self)) request sbSender))"

definition serverSideEmit_message_sr :: "jsval list \<Rightarrow> jsval" where
  "serverSideEmit_message_sr args =
     JObject
       [(''uid'', JStr UID),
        (''type'', JNum (RequestType_value SERVER_SIDE_EMIT)),
        (''data'', JArray args)]"

definition Emitter_serverSideEmit_sr ::
  "Emitter \<Rightarrow> jsval list \<Rightarrow> ServiceBusSender \<Rightarrow> (error + unit) \<times> ServiceBusSender" where
  "Emitter_serverSideEmit_sr self args sbSender =
     (let withAck = (typeof (last_arg args) = ''function'')
      in if withAck then (Inl (Error ''Acknowledgements are not supported''), sbSender)
         else
           let request = JSON_stringify (serverSideEmit_message_sr args)
           in (Inr (), sendMessage_sr (requestChannel (Emitter.broadcastOptions self)) request sbSender))"

text \<open>The terminal calls of \<open>Emitter\<close> start from a new operator.\<close>

definition Emitter_emit_sr ::
  "Emitter \<Rightarrow> string \<Rightarrow> jsval list \<Rightarrow> ServiceBusSender \<Rightarrow> (error + bool) \<times> ServiceBusSender" where
  "Emitter_emit_sr self ev args sbSender =
     BroadcastOperator_emit_sr (BroadcastOperator_new (Emitter.broadcastOptions self)) ev args sbSender"

definition Emitter_socketsJoin_sr ::
  "Emitter \<Rightarrow> string_or_array \<Rightarrow> ServiceBusSender \<Rightarrow> (error + unit) \<times> ServiceBusSender" where
  "Emitter_socketsJoin_sr self rooms_arg sbSender =
     BroadcastOperator_socketsJoin_sr (BroadcastOperator_new (Emitter.broadcastOptions self)) rooms_arg sbSender"

definition Emitter_socketsLeave_sr ::
  "Emitter \<Rightarrow> string_or_array \<Rightarrow> ServiceBusSender \<Rightarrow> (error + unit) \<times> ServiceBusSender" where
  "Emitter_socketsLeave_sr self rooms_arg sbSender =
     BroadcastOperator_socketsLeave_sr (BroadcastOperator_new (Emitter.broadcastOptions self)) rooms_arg sbSender"

definition Emitter_disconnectSockets_sr ::
  "Emitter \<Rightarrow> bool option \<Rightarrow> ServiceBusSender \<Rightarrow> (error + unit) \<times> ServiceBusSender" where
  "Emitter_disconnectSockets_sr self close_arg sbSender =
     BroadcastOperator_disconnectSockets_sr (BroadcastOperator_new (Emitter.broadcastOptions self))
       (Some (case close_arg of None \<Rightarrow> False | Some c \<Rightarrow> c)) sbSender"

subsection \<open>Second version: routing by properties (\<^verbatim>\<open>src/unnamed/part_003\<close>)\<close>

text \<open>
  The members of \<open>enum MessageType\<close> that the emitter uses. The enum is imported from
  \<open>socket.io-adapter\<close>; its numbers are not part of the repository, so every function
  that builds a \<open>ClusterMessage\<close> takes them as the parameter \<open>mt\<close>.
\<close>

datatype MessageType =
    BROADCAST
  | SOCKETS_JOIN
  | SOCKETS_LEAVE
  | DISCONNECT_SOCKETS
  | SERVER_SIDE_EMIT

text \<open>
  \<open>sendMessage\<close> ignores its channel. \<open>BroadcastOperator\<close> sends the property \<open>nsp\<close>,
  \<open>Emitter\<close> the properties \<open>nsp\<close> and \<open>uid\<close>.
\<close>

definition BroadcastOperator_sendMessage_pr ::
  "BroadcastOperator \<Rightarrow> string \<Rightarrow> jsval \<Rightarrow> ServiceBusSender \<Rightarrow> ServiceBusSender" where
  "BroadcastOperator_sendMessage_pr self channel body' sbSender =
     sbSender @
       [\<lparr>body = body', contentType = ''application/octet-stream'', subject = None,
         applicationProperties =
           Some [(''nsp'', JStr (BroadcastOptions.nsp (BroadcastOperator.broadcastOptions self)))]\<rparr>]"

definition Emitter_sendMessage_pr ::
  "Emitter \<Rightarrow> string \<Rightarrow> jsval \<Rightarrow> ServiceBusSender \<Rightarrow> ServiceBusSender" where
  "Emitter_sendMessage_pr self channel body' sbSender =
     sbSender @
       [\<lparr>body = body', contentType = ''application/octet-stream'', subject = None,
         applicationProperties = Some [(''nsp'', JStr (Emitter.nsp self)), (''uid'', JStr UID)]\<rparr>]"

text \<open>
  \<open>emit\<close> builds the \<open>ClusterMessage\<close> from the properties of \<open>packet\<close> and \<open>opts\<close>
  (\<open>packet.data\<close>, \<open>packet.nsp\<close>, \<open>opts.rooms\<close>, \<open>opts.flags\<close>, \<open>opts.except\<close>).
\<close>

definition emit_message_pr :: "(MessageType \<Rightarrow> int) \<Rightarrow> BroadcastOperator \<Rightarrow> string \<Rightarrow> jsval list \<Rightarrow> jsval" where
  "emit_message_pr mt self ev args =
     (let packet = emit_packet self ev args;
          opts' = emit_opts self
      in JObject
           [(''uid'', JStr UID),
            (''type'', JNum (mt BROADCAST)),
            (''data'', JObject
               [(''packet'', JObject [(''type'', JNum PacketType_EVENT),
                                      (''data'', jget packet ''data''),
                                      (''nsp'', jget packet ''nsp'')]),
                (''opts'', JObject [(''rooms'', jget opts' ''rooms''),
                                    (''flags'', jget opts' ''flags''),
                                    (''except'', jget opts' ''except'')])]),
            (''nsp'', jget packet ''nsp'')])"

definition BroadcastOperator_emit_pr ::
  "(MessageType \<Rightarrow> int) \<Rightarrow> BroadcastOperator \<Rightarrow> string \<Rightarrow> jsval list \<Rightarrow> ServiceBusSender
     \<Rightarrow> (error + bool) \<times> ServiceBusSender" where
  "BroadcastOperator_emit_pr mt self ev args sbSender =
     (if ev \<in> set RESERVED_EVENTS
      then (Inl (Error (''\"'' @ ev @ ''\" is a reserved event name'')), sbSender)
      else
        let clusterMessage = emit_message_pr mt self ev args;
            msg = encode (BroadcastOptions.parser (BroadcastOperator.broadcastOptions self)) clusterMessage
        in (Inr True, BroadcastOperator_sendMessage_pr self [] msg sbSender))"

definition socketsJoin_message_pr :: "(MessageType \<Rightarrow> int) \<Rightarrow> BroadcastOperator \<Rightarrow> string_or_array \<Rightarrow> jsval" where
  "socketsJoin_message_pr mt self rooms_arg =
     JObject
       [(''uid'', JStr UID),
        (''type'', JNum (mt SOCKETS_JOIN)),
        (''data'', JObject
           [(''opts'', JObject [(''rooms'', spread (rooms self)),
                                (''except'', spread (exceptRooms self)),
                                (''flags'', JObject (flags self))]),
            (''rooms'', spread (listify rooms_arg))]),
        (''nsp'', JStr (BroadcastOptions.nsp (BroadcastOperator.broadcastOptions self)))]"

definition BroadcastOperator_socketsJoin_pr ::
  "(MessageType \<Rightarrow> int) \<Rightarrow> BroadcastOperator \<Rightarrow> string_or_array \<Rightarrow> ServiceBusSender
     \<Rightarrow> (error + unit) \<times> ServiceBusSender" where
  "BroadcastOperator_socketsJoin_pr mt self rooms_arg sbSender =
     (let clusterMessage = socketsJoin_message_pr mt self rooms_arg;
          msg = encode (BroadcastOptions.parser (BroadcastOperator.broadcastOptions self)) clusterMessage
      in (Inr (), BroadcastOperator_sendMessage_pr self [] msg sbSender))"

definition socketsLeave_message_pr :: "(MessageType \<Rightarrow> int) \<Rightarrow> BroadcastOperator \<Rightarrow> string_or_array \<Rightarrow> jsval" where
  "socketsLeave_message_pr mt self rooms_arg =
     JObject
       [(''uid'', JStr UID),
        (''type'', JNum (mt SOCKETS_LEAVE)),
        (''data'', JObject
           [(''opts'', JObject [(''rooms'', spread (rooms self)),
                                (''except'', spread (exceptRooms self)),
                                (''flags'', JObject (flags self))]),
            (''rooms'', spread (listify rooms_arg))]),
        (''nsp'', JStr (BroadcastOptions.nsp (BroadcastOperator.broadcastOptions self)))]"

definition BroadcastOperator_socketsLeave_pr ::
  "(MessageType \<Rightarrow> int) \<Rightarrow> BroadcastOperator \<Rightarrow> string_or_array \<Rightarrow> ServiceBusSender
     \<Rightarrow> (error + unit) \<times> ServiceBusSender" where
  "BroadcastOperator_socketsLeave_pr mt self rooms_arg sbSender =
     (let clusterMessage = socketsLeave_message_pr mt self rooms_arg;
          msg = encode (BroadcastOptions.parser (BroadcastOperator.broadcastOptions self)) clusterMessage
      in (Inr (), BroadcastOperator_sendMessage_pr self [] msg sbSender))"

definition disconnectSockets_message_pr :: "(MessageType \<Rightarrow> int) \<Rightarrow> BroadcastOperator \<Rightarrow> bool \<Rightarrow> jsval" where
  "disconnectSockets_message_pr mt self close =
     JObject
       [(''uid'', JStr UID),
        (''type'', JNum (mt DISCONNECT_SOCKETS)),
        (''data'', JObject
           [(''opts'', JObject [(''rooms'', spread (rooms self)),
                                (''except'', spread (exceptRooms self)),
                                (''flags'', JObject (flags self))]),
            (''close'', JBool close)]),
        (''nsp'', JStr (BroadcastOptions.nsp (BroadcastOperator.broadcastOptions self)))]"

definition BroadcastOperator_disconnectSockets_pr ::
  "(MessageType \<Rightarrow> int) \<Rightarrow> BroadcastOperator \<Rightarrow> bool option \<Rightarrow> ServiceBusSender
     \<Rightarrow> (error + unit) \<times> ServiceBusSender" where
  "BroadcastOperator_disconnectSockets_pr mt self close_arg sbSender =
     (let close = (case close_arg of None \<Rightarrow> False | Some c \<Rightarrow> c);
          clusterMessage = disconnectSockets_message_pr mt self close;
          msg = encode (BroadcastOptions.parser (BroadcastOperator.broadcastOptions self)) clusterMessage
      in (Inr (), BroadcastOperator_sendMessage_pr self [] msg sbSender))"

definition serverSideEmit_message_pr :: "(MessageType \<Rightarrow> int) \<Rightarrow> Emitter \<Rightarrow> jsval list \<Rightarrow> jsval" where
  "serverSideEmit_message_pr mt self args =
     JObject
       [(''uid'', JStr UID),
        (''type'', JNum (mt MessageType.SERVER_SIDE_EMIT)),
        (''data'', JObject [(''packet'', JArray args)]),
        (''nsp'', JStr (Emitter.nsp self))]"

definition Emitter_serverSideEmit_pr ::
  "(MessageType \<Rightarrow> int) \<Rightarrow> Emitter \<Rightarrow> jsval list \<Rightarrow> ServiceBusSender
     \<Rightarrow> (error + unit) \<times> ServiceBusSender" where
  "Emitter_serverSideEmit_pr mt self args sbSender =
     (let withAck = (typeof (last_arg args) = ''function'')
      in if withAck then (Inl (Error ''Acknowledgements are not supported''), sbSender)
         else
           let clusterMessage = serverSideEmit_message_pr mt self args;
               msg = encode (BroadcastOptions.parser (Emitter.broadcastOptions self)) clusterMessage
           in (Inr (), Emitter_sendMessage_pr self [] msg sbSender))"

definition Emitter_emit_pr ::
  "(MessageType \<Rightarrow> int) \<Rightarrow> Emitter \<Rightarrow> string \<Rightarrow> jsval list \<Rightarrow> ServiceBusSender
     \<Rightarrow> (error + bool) \<times> ServiceBusSender" where
  "Emitter_emit_pr mt self ev args sbSender =
     BroadcastOperator_emit_pr mt (BroadcastOperator_new (Emitter.broadcastOptions self)) ev args sbSender"

definition Emitter_socketsJoin_pr ::
  "(MessageType \<Rightarrow> int) \<Rightarrow> Emitter \<Rightarrow> string_or_array \<Rightarrow> ServiceBusSender
     \<Rightarrow> (error + unit) \<times> ServiceBusSender" where
  "Emitter_socketsJoin_pr mt self rooms_arg sbSender =
     BroadcastOperator_socketsJoin_pr mt (BroadcastOperator_new (Emitter.broadcastOptions self)) rooms_arg sbSender"

definition Emitter_socketsLeave_pr ::
  "(MessageType \<Rightarrow> int) \<Rightarrow> Emitter \<Rightarrow> string_or_array \<Rightarrow> ServiceBusSender
     \<Rightarrow> (error + unit) \<times> ServiceBusSender" where
  "Emitter_socketsLeave_pr mt self rooms_arg sbSender =
     BroadcastOperator_socketsLeave_pr mt (BroadcastOperator_new (Emitter.broadcastOptions self)) rooms_arg sbSender"

definition Emitter_disconnectSockets_pr ::
  "(MessageType \<Rightarrow> int) \<Rightarrow> Emitter \<Rightarrow> bool option \<Rightarrow> ServiceBusSender
     \<Rightarrow> (error + unit) \<times> ServiceBusSender" where
  "Emitter_disconnectSockets_pr mt self close_arg sbSender =
     BroadcastOperator_disconnectSockets_pr mt (BroadcastOperator_new (Emitter.broadcastOptions self))
       (Some (case close_arg of None \<Rightarrow> False | Some c \<Rightarrow> c)) sbSender"

section \<open>The calls of a builder chain\<close>

text \<open>
  A refinement call and a terminal call of \<open>BroadcastOperator\<close> as data, so that a
  statement can range over every call. A terminal call returns \<open>true\<close> (\<open>emit\<close>) or
  \<open>undefined\<close> (the \<open>void\<close> methods).
\<close>

datatype refinement =
    To string_or_array
  | In string_or_array
  | Except string_or_array
  | Compress bool
  | Volatile

fun refine :: "refinement \<Rightarrow> BroadcastOperator \<Rightarrow> BroadcastOperator" where
  "refine (To room) self = BroadcastOperator_to self room"
| "refine (In room) self = BroadcastOperator_in self room"
| "refine (Except room) self = BroadcastOperator_except self room"
| "refine (Compress c) self = BroadcastOperator_compress self c"
| "refine Volatile self = BroadcastOperator_volatile self"

datatype terminal =
    Emit string "jsval list"
  | SocketsJoin string_or_array
  | SocketsLeave string_or_array
  | DisconnectSockets "bool option"

definition returned :: "('a \<Rightarrow> jsval) \<Rightarrow> (error + 'a) \<times> ServiceBusSender \<Rightarrow> (error + jsval) \<times> ServiceBusSender" where
  "returned f r = (case r of (Inl e, sb) \<Rightarrow> (Inl e, sb) | (Inr v, sb) \<Rightarrow> (Inr (f v), sb))"

fun terminal_sr :: "terminal \<Rightarrow> BroadcastOperator \<Rightarrow> ServiceBusSender \<Rightarrow> (error + jsval) \<times> ServiceBusSender" where
  "terminal_sr (Emit ev args) self sb = returned JBool (BroadcastOperator_emit_sr self ev args sb)"
| "terminal_sr (SocketsJoin rs) self sb =
     returned (\<lambda>u. JUndefined) (BroadcastOperator_socketsJoin_sr self rs sb)"
| "terminal_sr (SocketsLeave rs) self sb =
     returned (\<lambda>u. JUndefined) (BroadcastOperator_socketsLeave_sr self rs sb)"
| "terminal_sr (DisconnectSockets c) self sb =
     returned (\<lambda>u. JUndefined) (BroadcastOperator_disconnectSockets_sr self c sb)"

fun terminal_pr ::
  "(MessageType \<Rightarrow> int) \<Rightarrow> terminal \<Rightarrow> BroadcastOperator \<Rightarrow> ServiceBusSender
     \<Rightarrow> (error + jsval) \<times> ServiceBusSender" where
  "terminal_pr mt (Emit ev args) self sb = returned JBool (BroadcastOperator_emit_pr mt self ev args sb)"
| "terminal_pr mt (SocketsJoin rs) self sb =
     returned (\<lambda>u. JUndefined) (BroadcastOperator_socketsJoin_pr mt self rs sb)"
| "terminal_pr mt (SocketsLeave rs) self sb =
     returned (\<lambda>u. JUndefined) (BroadcastOperator_socketsLeave_pr mt self rs sb)"
| "terminal_pr mt (DisconnectSockets c) self sb =
     returned (\<lambda>u. JUndefined) (BroadcastOperator_disconnectSockets_pr mt self c sb)"

text \<open>
  The object a terminal call builds, and whether the call throws before it builds
  one. \<open>emit\<close> hands the object to the parser; in the first version the other calls
  hand it to \<open>JSON.stringify\<close>.
\<close>

fun throws :: "terminal \<Rightarrow> bool" where
  "throws (Emit ev args) = (ev \<in> set RESERVED_EVENTS)"
| "throws t = False"

fun terminal_message_sr :: "terminal \<Rightarrow> BroadcastOperator \<Rightarrow> jsval" where
  "terminal_message_sr (Emit ev args) self = emit_message_sr self ev args"
| "terminal_message_sr (SocketsJoin rs) self = socketsJoin_message_sr self rs"
| "terminal_message_sr (SocketsLeave rs) self = socketsLeave_message_sr self rs"
| "terminal_message_sr (DisconnectSockets c) self =
     disconnectSockets_message_sr self (case c of None \<Rightarrow> False | Some c' \<Rightarrow> c')"

fun terminal_message_pr :: "(MessageType \<Rightarrow> int) \<Rightarrow> terminal \<Rightarrow> BroadcastOperator \<Rightarrow> jsval" where
  "terminal_message_pr mt (Emit ev args) self = emit_message_pr mt self ev args"
| "terminal_message_pr mt (SocketsJoin rs) self = socketsJoin_message_pr mt self rs"
| "terminal_message_pr mt (SocketsLeave rs) self = socketsLeave_message_pr mt self rs"
| "terminal_message_pr mt (DisconnectSockets c) self =
     disconnectSockets_message_pr mt self (case c of None \<Rightarrow> False | Some c' \<Rightarrow> c')"

text \<open>
  Reading an element \<open>v[i]\<close> of an array, and the targeting criteria of a message: the
  first version's broadcast is the array \<open>[uid, packet, opts]\<close>, its requests keep the
  criteria in \<open>opts\<close>; a \<open>ClusterMessage\<close> keeps them in \<open>data.opts\<close>.
\<close>

fun jnth :: "jsval \<Rightarrow> nat \<Rightarrow> jsval" where
  "jnth (JArray vs) i = (if i < length vs then vs ! i else JUndefined)"
| "jnth v i = JUndefined"

fun criteria_sr :: "terminal \<Rightarrow> jsval \<Rightarrow> jsval" where
  "criteria_sr (Emit ev args) msg = jnth msg 2"
| "criteria_sr t msg = jget msg ''opts''"

definition criteria_pr :: "jsval \<Rightarrow> jsval" where
  "criteria_pr msg = jget (jget msg ''data'') ''opts''"

text \<open>
  An operator with another parser in its broadcast options, and the outcome of a
  terminal call without the bodies of the messages: they serve to compare what two
  emitters send that differ in the parser only.
\<close>

definition with_parser :: "Parser \<Rightarrow> BroadcastOperator \<Rightarrow> BroadcastOperator" where
  "with_parser p self =
     \<lparr>BroadcastOperator.broadcastOptions =
        \<lparr>BroadcastOptions.nsp = BroadcastOptions.nsp (BroadcastOperator.broadcastOptions self),
         broadcastChannel = broadcastChannel (BroadcastOperator.broadcastOptions self),
         requestChannel = requestChannel (BroadcastOperator.broadcastOptions self),
         parser = p\<rparr>,
      rooms = rooms self, exceptRooms = exceptRooms self, flags = flags self\<rparr>"

definition erase_body :: "(error + 'a) \<times> ServiceBusSender \<Rightarrow> (error + 'a) \<times> ServiceBusSender" where
  "erase_body r = (fst r, map (\<lambda>m. \<lparr>body = JUndefined, contentType = contentType m,
                                       subject = subject m,
                                       applicationProperties = applicationProperties m\<rparr>) (snd r))"

text \<open>
  A chain of refinement calls, applied from left to right, and the calls that name
  rooms to include (\<open>to\<close> and its alias \<open>in\<close>) with the rooms they name.
\<close>

definition chain :: "refinement list \<Rightarrow> BroadcastOperator \<Rightarrow> BroadcastOperator" where
  "chain cs self = foldl (\<lambda>b c. refine c b) self cs"

fun room_call :: "refinement \<Rightarrow> bool" where
  "room_call (To room) = True"
| "room_call (In room) = True"
| "room_call c = False"

fun call_rooms :: "refinement \<Rightarrow> string list" where
  "call_rooms (To room) = listify room"
| "call_rooms (In room) = listify room"
| "call_rooms c = []"

section \<open>The refinements on an object store\<close>

text \<open>
  In the source a \<open>BroadcastOperator\<close> holds references: \<open>rooms\<close> and \<open>exceptRooms\<close>
  point to \<open>Set\<close> objects, \<open>flags\<close> to a plain object, and a refinement hands the
  references it does not change on to the new operator (\<open>this.exceptRooms\<close>,
  \<open>this.flags\<close>), so two operators share objects. The store keeps the \<open>Set\<close> objects
  and the plain objects by address; the addresses below the counters are allocated.
\<close>

record store =
  set_objects :: "nat \<Rightarrow> string list"
  set_count :: nat
  plain_objects :: "nat \<Rightarrow> (string \<times> jsval) list"
  plain_count :: nat

record BroadcastOperator_ref =
  options_ref :: BroadcastOptions
  rooms_ref :: nat
  exceptRooms_ref :: nat
  flags_ref :: nat

text \<open>\<open>new Set(iterable)\<close>: a new object, filled by adding the elements in turn.\<close>

definition new_Set :: "string list \<Rightarrow> store \<Rightarrow> nat \<times> store" where
  "new_Set xs st =
     (set_count st,
      st\<lparr>set_objects := (set_objects st)(set_count st := foldl Set_add [] xs),
         set_count := Suc (set_count st)\<rparr>)"

text \<open>\<open>s.add(r)\<close> changes the object at the address \<open>s\<close>.\<close>

definition Set_add_ref :: "nat \<Rightarrow> string \<Rightarrow> store \<Rightarrow> store" where
  "Set_add_ref s r st = st\<lparr>set_objects := (set_objects st)(s := Set_add (set_objects st s) r)\<rparr>"

text \<open>The object literal \<open>{}\<close>, and \<open>Object.assign(target, ...sources)\<close>, which changes its target.\<close>

definition new_Object :: "store \<Rightarrow> nat \<times> store" where
  "new_Object st =
     (plain_count st,
      st\<lparr>plain_objects := (plain_objects st)(plain_count st := []),
         plain_count := Suc (plain_count st)\<rparr>)"

definition Object_assign_ref :: "nat \<Rightarrow> (string \<times> jsval) list list \<Rightarrow> store \<Rightarrow> store" where
  "Object_assign_ref target sources st =
     st\<lparr>plain_objects := (plain_objects st)(target := Object_assign (plain_objects st target) sources)\<rparr>"

definition BroadcastOperator_new_ref :: "BroadcastOptions \<Rightarrow> store \<Rightarrow> BroadcastOperator_ref \<times> store" where
  "BroadcastOperator_new_ref bo st =
     (let (rooms', st1) = new_Set [] st;
          (exceptRooms', st2) = new_Set [] st1;
          (flags', st3) = new_Object st2
      in (\<lparr>options_ref = bo, rooms_ref = rooms', exceptRooms_ref = exceptRooms',
           flags_ref = flags'\<rparr>, st3))"

definition BroadcastOperator_to_ref ::
  "BroadcastOperator_ref \<Rightarrow> string_or_array \<Rightarrow> store \<Rightarrow> BroadcastOperator_ref \<times> store" where
  "BroadcastOperator_to_ref self room st =
     (let (rooms', st1) = new_Set (set_objects st (rooms_ref self)) st;
          st2 = foldl (\<lambda>s r. Set_add_ref rooms' r s) st1 (listify room)
      in (\<lparr>options_ref = options_ref self, rooms_ref = rooms',
           exceptRooms_ref = exceptRooms_ref self, flags_ref = flags_ref self\<rparr>, st2))"

definition BroadcastOperator_in_ref ::
  "BroadcastOperator_ref \<Rightarrow> string_or_array \<Rightarrow> store \<Rightarrow> BroadcastOperator_ref \<times> store" where
  "BroadcastOperator_in_ref self room st = BroadcastOperator_to_ref self room st"

definition BroadcastOperator_except_ref ::
  "BroadcastOperator_ref \<Rightarrow> string_or_array \<Rightarrow> store \<Rightarrow> BroadcastOperator_ref \<times> store" where
  "BroadcastOperator_except_ref self room st =
     (let (exceptRooms', st1) = new_Set (set_objects st (exceptRooms_ref self)) st;
          st2 = foldl (\<lambda>s r. Set_add_ref exceptRooms' r s) st1 (listify room)
      in (\<lparr>options_ref = options_ref self, rooms_ref = rooms_ref self,
           exceptRooms_ref = exceptRooms', flags_ref = flags_ref self\<rparr>, st2))"

definition BroadcastOperator_compress_ref ::
  "BroadcastOperator_ref \<Rightarrow> bool \<Rightarrow> store \<Rightarrow> BroadcastOperator_ref \<times> store" where
  "BroadcastOperator_compress_ref self compress st =
     (let (flags', st1) = new_Object st;
          st2 = Object_assign_ref flags'
                  [plain_objects st1 (flags_ref self), [(''compress'', JBool compress)]] st1
      in (\<lparr>options_ref = options_ref self, rooms_ref = rooms_ref self,
           exceptRooms_ref = exceptRooms_ref self, flags_ref = flags'\<rparr>, st2))"

definition BroadcastOperator_volatile_ref ::
  "BroadcastOperator_ref \<Rightarrow> store \<Rightarrow> BroadcastOperator_ref \<times> store" where
  "BroadcastOperator_volatile_ref self st =
     (let (flags', st1) = new_Object st;
          st2 = Object_assign_ref flags'
                  [plain_objects st1 (flags_ref self), [(''volatile'', JBool True)]] st1
      in (\<lparr>options_ref = options_ref self, rooms_ref = rooms_ref self,
           exceptRooms_ref = exceptRooms_ref self, flags_ref = flags'\<rparr>, st2))"

fun refine_ref :: "refinement \<Rightarrow> BroadcastOperator_ref \<Rightarrow> store \<Rightarrow> BroadcastOperator_ref \<times> store" where
  "refine_ref (To room) self st = BroadcastOperator_to_ref self room st"
| "refine_ref (In room) self st = BroadcastOperator_in_ref self room st"
| "refine_ref (Except room) self st = BroadcastOperator_except_ref self room st"
| "refine_ref (Compress c) self st = BroadcastOperator_compress_ref self c st"
| "refine_ref Volatile self st = BroadcastOperator_volatile_ref self st"

text \<open>
  What an operator holds in a store: the terminal calls only read the objects
  (\<open>[...this.rooms]\<close>, \<open>[...this.exceptRooms]\<close>, \<open>this.flags\<close>), so a terminal call on a
  reference is the terminal call on this value.
\<close>

definition deref :: "store \<Rightarrow> BroadcastOperator_ref \<Rightarrow> BroadcastOperator" where
  "deref st self =
     \<lparr>BroadcastOperator.broadcastOptions = options_ref self,
      rooms = set_objects st (rooms_ref self),
      exceptRooms = set_objects st (exceptRooms_ref self),
      flags = plain_objects st (flags_ref self)\<rparr>"

text \<open>
  An operator of a store: its references are allocated and its sets hold no element
  twice.
\<close>

definition valid_ref :: "store \<Rightarrow> BroadcastOperator_ref \<Rightarrow> bool" where
  "valid_ref st self \<longleftrightarrow>
     rooms_ref self < set_count st \<and> exceptRooms_ref self < set_count st \<and>
     flags_ref self < plain_count st \<and>
     distinct (set_objects st (rooms_ref self)) \<and>
     distinct (set_objects st (exceptRooms_ref self))"

text \<open>No object allocated in \<open>st\<close> differs in \<open>st'\<close>.\<close>

definition unchanged :: "store \<Rightarrow> store \<Rightarrow> bool" where
  "unchanged st st' \<longleftrightarrow>
     set_count st \<le> set_count st' \<and> plain_count st \<le> plain_count st' \<and>
     (\<forall>a \<in> set [0..<set_count st]. set_objects st' a = set_objects st a) \<and>
     (\<forall>a \<in> set [0..<plain_count st]. plain_objects st' a = plain_objects st a)"

definition empty_store :: store where
  "empty_store = \<lparr>set_objects = (\<lambda>a. []), set_count = 0, plain_objects = (\<lambda>a. []), plain_count = 0\<rparr>"

section \<open>Properties\<close>

subsection \<open>Basic facts\<close>

lemma RESERVED_EVENTS_set:
  "set RESERVED_EVENTS =
     {''connect'', ''connect_error'', ''disconnect'', ''disconnecting'',
      ''newListener'', ''removeListener''}"
  by (simp add: RESERVED_EVENTS_def)

lemma Emitter_new_default:
  "Emitter_new enc None None =
     \<lparr>opts = \<lparr>key = Some ''socket.io'', EmitterOptions.parser = Some \<lparr>encode = enc\<rparr>\<rparr>,
      broadcastOptions =
        \<lparr>BroadcastOptions.nsp = ''/'', broadcastChannel = ''socket.io#/#'',
         requestChannel = ''socket.io-request#/#'', parser = \<lparr>encode = enc\<rparr>\<rparr>,
      nsp = ''/''\<rparr>"
  by (simp add: Emitter_new_def Object_assign_opts_def key_string_def Let_def)

lemma emit_sr_sends:
  "ev \<notin> set RESERVED_EVENTS \<Longrightarrow>
   BroadcastOperator_emit_sr self ev args sb =
     (Inr True,
      sb @ [\<lparr>body = encode (BroadcastOptions.parser (BroadcastOperator.broadcastOptions self))
                       (emit_message_sr self ev args),
              contentType = ''application/octet-stream'',
              subject = Some (emit_channel_sr self),
              applicationProperties = None\<rparr>])"
  by (simp add: BroadcastOperator_emit_sr_def sendMessage_sr_def Let_def)

lemma emit_pr_sends:
  "ev \<notin> set RESERVED_EVENTS \<Longrightarrow>
   BroadcastOperator_emit_pr mt self ev args sb =
     (Inr True,
      sb @ [\<lparr>body = encode (BroadcastOptions.parser (BroadcastOperator.broadcastOptions self))
                       (emit_message_pr mt self ev args),
              contentType = ''application/octet-stream'',
              subject = None,
              applicationProperties =
                Some [(''nsp'', JStr (BroadcastOptions.nsp (BroadcastOperator.broadcastOptions self)))]\<rparr>])"
  by (simp add: BroadcastOperator_emit_pr_def BroadcastOperator_sendMessage_pr_def Let_def)

lemma emit_throws:
  "ev \<in> set RESERVED_EVENTS \<Longrightarrow>
   BroadcastOperator_emit_sr self ev args sb =
     (Inl (Error (''\"'' @ ev @ ''\" is a reserved event name'')), sb) \<and>
   BroadcastOperator_emit_pr mt self ev args sb =
     (Inl (Error (''\"'' @ ev @ ''\" is a reserved event name'')), sb)"
  by (simp add: BroadcastOperator_emit_sr_def BroadcastOperator_emit_pr_def)

lemma emit_packet_fields:
  "jget (emit_packet self ev args) ''type'' = JNum 2"
  "jget (emit_packet self ev args) ''data'' = JArray (JStr ev # args)"
  "jget (emit_packet self ev args) ''nsp'' =
     JStr (BroadcastOptions.nsp (BroadcastOperator.broadcastOptions self))"
  by (simp_all add: emit_packet_def PacketType_EVENT_def Let_def)

lemma emit_opts_fields:
  "jget (emit_opts self) ''rooms'' = JArray (map JStr (rooms self))"
  "jget (emit_opts self) ''flags'' = JObject (flags self)"
  "jget (emit_opts self) ''except'' = JArray (map JStr (exceptRooms self))"
  by (simp_all add: emit_opts_def spread_def)

lemma emit_message_pr_fields:
  "jget (emit_message_pr mt self ev args) ''uid'' = JStr ''emitter''"
  "jget (emit_message_pr mt self ev args) ''type'' = JNum (mt BROADCAST)"
  "jget (emit_message_pr mt self ev args) ''nsp'' =
     JStr (BroadcastOptions.nsp (BroadcastOperator.broadcastOptions self))"
  "jget (jget (emit_message_pr mt self ev args) ''data'') ''packet'' = emit_packet self ev args"
  "jget (jget (emit_message_pr mt self ev args) ''data'') ''opts'' = emit_opts self"
  by (simp_all add: emit_message_pr_def Let_def UID_def emit_packet_fields emit_opts_fields)
    (simp_all add: emit_packet_def emit_opts_def PacketType_EVENT_def spread_def Let_def)

subsection \<open>Reserved event names\<close>

text \<open>
  C1. \<open>emit\<close> with one of the six reserved event names throws its error and leaves
  the sender as it was: nothing is encoded and nothing is sent, whatever the parser
  is. With any other name \<open>emit\<close> returns \<open>true\<close> and hands exactly one message to the
  sender, whose body is the parser's encoding of the broadcast message: the array
  \<open>[UID, packet, opts]\<close> in the first version, the \<open>ClusterMessage\<close> of type
  \<open>BROADCAST\<close> in the second. \<open>emit\<close> of \<open>Emitter\<close> calls it on a new operator.
\<close>

theorem emit_reserved_events:
  "set RESERVED_EVENTS =
     {''connect'', ''connect_error'', ''disconnect'', ''disconnecting'',
      ''newListener'', ''removeListener''} \<and>
   (ev \<in> set RESERVED_EVENTS \<longrightarrow>
      BroadcastOperator_emit_sr self ev args sb =
        (Inl (Error (''\"'' @ ev @ ''\" is a reserved event name'')), sb) \<and>
      BroadcastOperator_emit_pr mt self ev args sb =
        (Inl (Error (''\"'' @ ev @ ''\" is a reserved event name'')), sb) \<and>
      Emitter_emit_sr e ev args sb =
        (Inl (Error (''\"'' @ ev @ ''\" is a reserved event name'')), sb) \<and>
      Emitter_emit_pr mt e ev args sb =
        (Inl (Error (''\"'' @ ev @ ''\" is a reserved event name'')), sb)) \<and>
   (ev \<notin> set RESERVED_EVENTS \<longrightarrow>
      BroadcastOperator_emit_sr self ev args sb =
        (Inr True,
         sb @ [\<lparr>body = encode (BroadcastOptions.parser (BroadcastOperator.broadcastOptions self))
                          (emit_message_sr self ev args),
                 contentType = ''application/octet-stream'',
                 subject = Some (emit_channel_sr self),
                 applicationProperties = None\<rparr>]) \<and>
      emit_message_sr self ev args = JArray [JStr ''emitter'', emit_packet self ev args, emit_opts self] \<and>
      BroadcastOperator_emit_pr mt self ev args sb =
        (Inr True,
         sb @ [\<lparr>body = encode (BroadcastOptions.parser (BroadcastOperator.broadcastOptions self))
                          (emit_message_pr mt self ev args),
                 contentType = ''application/octet-stream'',
                 subject = None,
                 applicationProperties =
                   Some [(''nsp'', JStr (BroadcastOptions.nsp (BroadcastOperator.broadcastOptions self)))]\<rparr>]) \<and>
      jget (emit_message_pr mt self ev args) ''type'' = JNum (mt BROADCAST) \<and>
      jget (jget (emit_message_pr mt self ev args) ''data'') ''packet'' = emit_packet self ev args \<and>
      jget (emit_packet self ev args) ''data'' = JArray (JStr ev # args) \<and>
      Emitter_emit_sr e ev args sb =
        BroadcastOperator_emit_sr (BroadcastOperator_new (Emitter.broadcastOptions e)) ev args sb \<and>
      Emitter_emit_pr mt e ev args sb =
        BroadcastOperator_emit_pr mt (BroadcastOperator_new (Emitter.broadcastOptions e)) ev args sb)"
  using emit_throws [of ev self args sb mt]
    emit_throws [of ev "BroadcastOperator_new (Emitter.broadcastOptions e)" args sb mt]
    emit_sr_sends [of ev self args sb] emit_pr_sends [of ev mt self args sb]
  by (simp add: RESERVED_EVENTS_set emit_message_pr_fields emit_packet_fields
      Emitter_emit_sr_def Emitter_emit_pr_def emit_message_sr_def UID_def)

theorem emit_reserved_events_witness:
  "BroadcastOperator_emit_sr (BroadcastOperator_new (Emitter.broadcastOptions (Emitter_new id None None)))
     ''connect'' [] [] = (Inl (Error ''\"connect\" is a reserved event name''), []) \<and>
   Emitter_emit_pr (\<lambda>t. 3) (Emitter_new id None None) ''disconnect'' [JNum 1] [] =
     (Inl (Error ''\"disconnect\" is a reserved event name''), []) \<and>
   BroadcastOperator_emit_sr
     (BroadcastOperator_to (BroadcastOperator_new (Emitter.broadcastOptions (Emitter_new id None None)))
        (Single ''room1''))
     ''payload'' [JNum 1] [] =
     (Inr True,
      [\<lparr>body = JArray
                 [JStr ''emitter'',
                  JObject [(''type'', JNum 2), (''data'', JArray [JStr ''payload'', JNum 1]),
                           (''nsp'', JStr ''/'')],
                  JObject [(''rooms'', JArray [JStr ''room1'']), (''flags'', JObject []),
                           (''except'', JArray [])]],
        contentType = ''application/octet-stream'',
        subject = Some ''socket.io#/#room1#'',
        applicationProperties = None\<rparr>])"
  using
    emit_reserved_events [of "''connect''"
      "BroadcastOperator_new (Emitter.broadcastOptions (Emitter_new id None None))" "[]" "[]"
      "\<lambda>t. 3" "Emitter_new id None None"]
    emit_reserved_events [of "''disconnect''"
      "BroadcastOperator_new (Emitter.broadcastOptions (Emitter_new id None None))" "[JNum 1]" "[]"
      "\<lambda>t. 3" "Emitter_new id None None"]
    emit_reserved_events [of "''payload''"
      "BroadcastOperator_to (BroadcastOperator_new (Emitter.broadcastOptions (Emitter_new id None None)))
         (Single ''room1'')" "[JNum 1]" "[]"
      "\<lambda>t. 3" "Emitter_new id None None"]
  by (simp add: RESERVED_EVENTS_def Emitter_new_default BroadcastOperator_new_def
      BroadcastOperator_to_def Set_add_def emit_packet_def emit_opts_def emit_channel_sr_def
      spread_def PacketType_EVENT_def)

subsection \<open>Sets and refinements\<close>

lemma set_foldl_Set_add: "set (foldl Set_add s rs) = set s \<union> set rs"
  by (induction rs arbitrary: s) (auto simp: Set_add_def)

lemma distinct_foldl_Set_add: "distinct s \<Longrightarrow> distinct (foldl Set_add s rs)"
  by (induction rs arbitrary: s) (auto simp: Set_add_def)

lemma foldl_Set_add_disjoint:
  "distinct rs \<Longrightarrow> set s \<inter> set rs = {} \<Longrightarrow> foldl Set_add s rs = s @ rs"
proof (induction rs arbitrary: s)
  case Nil
  then show ?case by simp
next
  case (Cons r rs)
  from Cons.prems have "r \<notin> set s" and "distinct rs" and "set (s @ [r]) \<inter> set rs = {}"
    by auto
  with Cons.IH [of "s @ [r]"] show ?case
    by (simp add: Set_add_def)
qed

lemma copy_of_Set: "distinct s \<Longrightarrow> foldl Set_add [] s = s"
  using foldl_Set_add_disjoint [of s "[]"] by simp

subsection \<open>The object store\<close>

lemma foldl_Set_add_ref:
  "foldl (\<lambda>s r. Set_add_ref a r s) st rs =
     st\<lparr>set_objects := (set_objects st)(a := foldl Set_add (set_objects st a) rs)\<rparr>"
proof (induction rs arbitrary: st)
  case Nil
  then show ?case by simp
next
  case (Cons r rs)
  have "foldl (\<lambda>s r. Set_add_ref a r s) st (r # rs) =
          foldl (\<lambda>s r. Set_add_ref a r s) (Set_add_ref a r st) rs"
    by simp
  also have "\<dots> = (Set_add_ref a r st)\<lparr>set_objects := (set_objects (Set_add_ref a r st))
                      (a := foldl Set_add (set_objects (Set_add_ref a r st) a) rs)\<rparr>"
    by (rule Cons.IH)
  also have "\<dots> = st\<lparr>set_objects := (set_objects st)(a := foldl Set_add (set_objects st a) (r # rs))\<rparr>"
    by (simp add: Set_add_ref_def)
  finally show ?case .
qed

lemma to_ref_result:
  "BroadcastOperator_to_ref self room st =
     (\<lparr>options_ref = options_ref self, rooms_ref = set_count st,
       exceptRooms_ref = exceptRooms_ref self, flags_ref = flags_ref self\<rparr>,
      st\<lparr>set_objects := (set_objects st)
            (set_count st := foldl Set_add (foldl Set_add [] (set_objects st (rooms_ref self)))
                               (listify room)),
         set_count := Suc (set_count st)\<rparr>)"
  by (simp add: BroadcastOperator_to_ref_def new_Set_def foldl_Set_add_ref)

lemma except_ref_result:
  "BroadcastOperator_except_ref self room st =
     (\<lparr>options_ref = options_ref self, rooms_ref = rooms_ref self,
       exceptRooms_ref = set_count st, flags_ref = flags_ref self\<rparr>,
      st\<lparr>set_objects := (set_objects st)
            (set_count st := foldl Set_add (foldl Set_add [] (set_objects st (exceptRooms_ref self)))
                               (listify room)),
         set_count := Suc (set_count st)\<rparr>)"
  by (simp add: BroadcastOperator_except_ref_def new_Set_def foldl_Set_add_ref)

lemma compress_ref_result:
  "flags_ref self < plain_count st \<Longrightarrow>
   BroadcastOperator_compress_ref self c st =
     (\<lparr>options_ref = options_ref self, rooms_ref = rooms_ref self,
       exceptRooms_ref = exceptRooms_ref self, flags_ref = plain_count st\<rparr>,
      st\<lparr>plain_objects := (plain_objects st)
            (plain_count st :=
               Object_assign [] [plain_objects st (flags_ref self), [(''compress'', JBool c)]]),
         plain_count := Suc (plain_count st)\<rparr>)"
  by (simp add: BroadcastOperator_compress_ref_def new_Object_def Object_assign_ref_def)

lemma volatile_ref_result:
  "flags_ref self < plain_count st \<Longrightarrow>
   BroadcastOperator_volatile_ref self st =
     (\<lparr>options_ref = options_ref self, rooms_ref = rooms_ref self,
       exceptRooms_ref = exceptRooms_ref self, flags_ref = plain_count st\<rparr>,
      st\<lparr>plain_objects := (plain_objects st)
            (plain_count st :=
               Object_assign [] [plain_objects st (flags_ref self), [(''volatile'', JBool True)]]),
         plain_count := Suc (plain_count st)\<rparr>)"
  by (simp add: BroadcastOperator_volatile_ref_def new_Object_def Object_assign_ref_def)

lemma refine_ref_frame:
  assumes "valid_ref st self" and "refine_ref c self st = (self', st')"
  shows "unchanged st st'"
    and "deref st' self = deref st self"
    and "valid_ref st' self"
    and "valid_ref st' self'"
    and "deref st' self' = refine c (deref st self)"
    and "self' \<noteq> self"
proof -
  from assms(1) have v:
    "rooms_ref self < set_count st" "exceptRooms_ref self < set_count st"
    "flags_ref self < plain_count st"
    "distinct (set_objects st (rooms_ref self))"
    "distinct (set_objects st (exceptRooms_ref self))"
    by (simp_all add: valid_ref_def)
  have all: "unchanged st st' \<and> deref st' self = deref st self \<and> valid_ref st' self \<and>
    valid_ref st' self' \<and> deref st' self' = refine c (deref st self) \<and>
    (rooms_ref self' \<noteq> rooms_ref self \<or> exceptRooms_ref self' \<noteq> exceptRooms_ref self \<or>
     flags_ref self' \<noteq> flags_ref self)"
  proof (cases c)
    case (To room)
    with assms(2) have r: "BroadcastOperator_to_ref self room st = (self', st')" by simp
    show ?thesis
      using v r [symmetric] unfolding to_ref_result
      by (auto simp: unchanged_def deref_def valid_ref_def To BroadcastOperator_to_def
          copy_of_Set distinct_foldl_Set_add)
  next
    case (In room)
    with assms(2) have r: "BroadcastOperator_to_ref self room st = (self', st')"
      by (simp add: BroadcastOperator_in_ref_def)
    show ?thesis
      using v r [symmetric] unfolding to_ref_result
      by (auto simp: unchanged_def deref_def valid_ref_def In BroadcastOperator_in_def
          BroadcastOperator_to_def copy_of_Set distinct_foldl_Set_add)
  next
    case (Except room)
    with assms(2) have r: "BroadcastOperator_except_ref self room st = (self', st')" by simp
    show ?thesis
      using v r [symmetric] unfolding except_ref_result
      by (auto simp: unchanged_def deref_def valid_ref_def Except BroadcastOperator_except_def
          copy_of_Set distinct_foldl_Set_add)
  next
    case (Compress b)
    with assms(2) have r: "BroadcastOperator_compress_ref self b st = (self', st')" by simp
    show ?thesis
      using v r [symmetric] unfolding compress_ref_result [OF v(3)]
      by (auto simp: unchanged_def deref_def valid_ref_def Compress BroadcastOperator_compress_def)
  next
    case Volatile
    with assms(2) have r: "BroadcastOperator_volatile_ref self st = (self', st')" by simp
    show ?thesis
      using v r [symmetric] unfolding volatile_ref_result [OF v(3)]
      by (auto simp: unchanged_def deref_def valid_ref_def Volatile BroadcastOperator_volatile_def)
  qed
  from all show "unchanged st st'" by simp
  from all show "deref st' self = deref st self" by simp
  from all show "valid_ref st' self" by simp
  from all show "valid_ref st' self'" by simp
  from all show "deref st' self' = refine c (deref st self)" by simp
  from all show "self' \<noteq> self" by auto
qed

lemma new_ref_valid:
  "BroadcastOperator_new_ref bo st = (self, st') \<Longrightarrow>
     valid_ref st' self \<and> deref st' self = BroadcastOperator_new bo \<and> unchanged st st'"
  by (auto simp: BroadcastOperator_new_ref_def new_Set_def new_Object_def valid_ref_def
      deref_def BroadcastOperator_new_def unchanged_def)

lemma unchanged_deref:
  "unchanged st st' \<Longrightarrow> valid_ref st other \<Longrightarrow>
     deref st' other = deref st other \<and> valid_ref st' other"
  by (simp add: unchanged_def valid_ref_def deref_def)

text \<open>
  C2. A refinement call (\<open>to\<close>, \<open>in\<close>, \<open>except\<close>, \<open>compress\<close>, \<open>volatile\<close>) on an operator
  of a store returns another operator and changes no object that was allocated
  before the call: the receiver's rooms, excluded rooms and flags are what they
  were, so every terminal call on the receiver hands the sender the same message
  as before, in both versions; the same holds for every other operator of the
  store, which may share objects with the receiver. The new operator holds what
  the refinement on values computes.
\<close>

theorem refinement_keeps_receiver:
  assumes "valid_ref st self" and "refine_ref c self st = (self', st')"
    and "valid_ref st other"
  shows "self' \<noteq> self \<and>
         unchanged st st' \<and>
         rooms (deref st' self) = rooms (deref st self) \<and>
         exceptRooms (deref st' self) = exceptRooms (deref st self) \<and>
         flags (deref st' self) = flags (deref st self) \<and>
         terminal_sr t (deref st' self) sb = terminal_sr t (deref st self) sb \<and>
         terminal_pr mt t (deref st' self) sb = terminal_pr mt t (deref st self) sb \<and>
         deref st' other = deref st other \<and>
         valid_ref st' self \<and> valid_ref st' other \<and> valid_ref st' self' \<and>
         deref st' self' = refine c (deref st self)"
  using refine_ref_frame [OF assms(1,2)] unchanged_deref [OF _ assms(3), of st']
  by simp

theorem refinement_keeps_receiver_witness:
  "rooms (deref
       (snd (refine_ref (To (Multiple [''a'', ''b'']))
               (fst (BroadcastOperator_new_ref
                       (Emitter.broadcastOptions (Emitter_new id None None)) empty_store))
               (snd (BroadcastOperator_new_ref
                       (Emitter.broadcastOptions (Emitter_new id None None)) empty_store))))
       (fst (BroadcastOperator_new_ref
               (Emitter.broadcastOptions (Emitter_new id None None)) empty_store))) = [] \<and>
   rooms (deref
       (snd (refine_ref (To (Multiple [''a'', ''b'']))
               (fst (BroadcastOperator_new_ref
                       (Emitter.broadcastOptions (Emitter_new id None None)) empty_store))
               (snd (BroadcastOperator_new_ref
                       (Emitter.broadcastOptions (Emitter_new id None None)) empty_store))))
       (fst (refine_ref (To (Multiple [''a'', ''b'']))
               (fst (BroadcastOperator_new_ref
                       (Emitter.broadcastOptions (Emitter_new id None None)) empty_store))
               (snd (BroadcastOperator_new_ref
                       (Emitter.broadcastOptions (Emitter_new id None None)) empty_store))))) =
     [''a'', ''b'']"
proof -
  let ?new = "BroadcastOperator_new_ref (Emitter.broadcastOptions (Emitter_new id None None)) empty_store"
  let ?b = "fst ?new" and ?st = "snd ?new"
  let ?r = "refine_ref (To (Multiple [''a'', ''b''])) ?b ?st"
  have new: "?new =
      (\<lparr>options_ref = Emitter.broadcastOptions (Emitter_new id None None),
        rooms_ref = 0, exceptRooms_ref = 1, flags_ref = 0\<rparr>,
       \<lparr>set_objects = (\<lambda>a. []) (0 := [], 1 := []), set_count = 2,
        plain_objects = (\<lambda>a. []) (0 := []), plain_count = 1\<rparr>)"
    by (simp add: BroadcastOperator_new_ref_def new_Set_def new_Object_def empty_store_def)
  have v: "valid_ref ?st ?b"
    by (simp add: new valid_ref_def)
  have r: "?r = (fst ?r, snd ?r)"
    by simp
  have "rooms (deref (snd ?r) ?b) = rooms (deref ?st ?b)"
    and "deref (snd ?r) (fst ?r) = refine (To (Multiple [''a'', ''b''])) (deref ?st ?b)"
    using refinement_keeps_receiver [OF v r v] by simp_all
  then show ?thesis
    by (simp add: new deref_def BroadcastOperator_to_def Set_add_def)
qed

subsection \<open>Rooms accumulate as a set\<close>

lemma chain_Cons: "chain (c # cs) self = chain cs (refine c self)"
  by (simp add: chain_def)

lemma chain_room_calls:
  "\<forall>c \<in> set cs. room_call c \<Longrightarrow>
     chain cs self = BroadcastOperator_to self (Multiple (concat (map call_rooms cs)))"
proof (induction cs arbitrary: self)
  case Nil
  show ?case
    by (simp add: chain_def BroadcastOperator_to_def)
next
  case (Cons c cs)
  from Cons.prems have rest: "\<forall>c \<in> set cs. room_call c" and c: "room_call c"
    by simp_all
  from c have step: "refine c self = BroadcastOperator_to self (Multiple (call_rooms c))"
    by (cases c) (simp_all add: BroadcastOperator_in_def BroadcastOperator_to_def)
  show ?case
    unfolding chain_Cons Cons.IH [OF rest] step
    by (simp add: BroadcastOperator_to_def)
qed

lemma rooms_to:
  "rooms (BroadcastOperator_to self room) = foldl Set_add (rooms self) (listify room)"
  "exceptRooms (BroadcastOperator_to self room) = exceptRooms self"
  "flags (BroadcastOperator_to self room) = flags self"
  "BroadcastOperator.broadcastOptions (BroadcastOperator_to self room) =
     BroadcastOperator.broadcastOptions self"
  by (simp_all add: BroadcastOperator_to_def)

lemma same_set_same_channel:
  assumes "distinct xs" and "distinct ys" and "set xs = set ys"
  shows "(case xs of [r] \<Rightarrow> f r | _ \<Rightarrow> d) = (case ys of [r] \<Rightarrow> f r | _ \<Rightarrow> d)"
proof -
  from assms have len: "length xs = length ys"
    by (metis distinct_card)
  show ?thesis
  proof (cases xs)
    case Nil
    with assms(3) show ?thesis by simp
  next
    case (Cons x xs')
    note xs = this
    show ?thesis
    proof (cases xs')
      case Nil
      with xs len obtain y where "ys = [y]"
        by (cases ys) auto
      with xs Nil assms(3) show ?thesis by simp
    next
      case (Cons x' xs'')
      with xs len obtain y y' ys'' where "ys = y # y' # ys''"
        by (cases ys; cases "tl ys") auto
      with xs Cons show ?thesis by simp
    qed
  qed
qed

text \<open>
  C3. A chain of \<open>to\<close> and \<open>in\<close> calls is one \<open>to\<close> call with all the rooms named, in
  order: the rooms of the resulting operator have no element twice and are, as a
  set, the rooms of the receiver and all rooms named, whatever the order, the
  grouping and the repetition of the calls; the excluded rooms and the flags are
  untouched. \<open>emit\<close> then sends, in both versions, a message whose \<open>opts.rooms\<close> is the
  array of these rooms. Two chains that name the same rooms give the same set of
  rooms and the same subject. \<open>in\<close> is \<open>to\<close>, and \<open>.to(a).in(b)\<close> is \<open>.to([a, b])\<close>.
\<close>

theorem rooms_accumulate:
  assumes "distinct (rooms self)"
    and "\<forall>c \<in> set cs. room_call c"
    and "\<forall>c \<in> set cs'. room_call c"
    and "(\<Union>c \<in> set cs. set (call_rooms c)) = (\<Union>c \<in> set cs'. set (call_rooms c))"
    and "ev \<notin> set RESERVED_EVENTS"
  shows "chain cs self = BroadcastOperator_to self (Multiple (concat (map call_rooms cs))) \<and>
         distinct (rooms (chain cs self)) \<and>
         set (rooms (chain cs self)) = set (rooms self) \<union> (\<Union>c \<in> set cs. set (call_rooms c)) \<and>
         exceptRooms (chain cs self) = exceptRooms self \<and>
         flags (chain cs self) = flags self \<and>
         set (rooms (chain cs' self)) = set (rooms (chain cs self)) \<and>
         emit_channel_sr (chain cs' self) = emit_channel_sr (chain cs self) \<and>
         BroadcastOperator_in self room = BroadcastOperator_to self room \<and>
         BroadcastOperator_in (BroadcastOperator_to self (Single a)) (Single b) =
           BroadcastOperator_to self (Multiple [a, b]) \<and>
         snd (BroadcastOperator_emit_sr (chain cs self) ev args sb) =
           sb @ [\<lparr>body = encode (BroadcastOptions.parser (BroadcastOperator.broadcastOptions self))
                            (JArray [JStr ''emitter'', emit_packet (chain cs self) ev args,
                                     emit_opts (chain cs self)]),
                   contentType = ''application/octet-stream'',
                   subject = Some (emit_channel_sr (chain cs self)),
                   applicationProperties = None\<rparr>] \<and>
         jget (emit_opts (chain cs self)) ''rooms'' = JArray (map JStr (rooms (chain cs self))) \<and>
         snd (BroadcastOperator_emit_pr mt (chain cs self) ev args sb) =
           sb @ [\<lparr>body = encode (BroadcastOptions.parser (BroadcastOperator.broadcastOptions self))
                            (emit_message_pr mt (chain cs self) ev args),
                   contentType = ''application/octet-stream'',
                   subject = None,
                   applicationProperties =
                     Some [(''nsp'', JStr (BroadcastOptions.nsp (BroadcastOperator.broadcastOptions self)))]\<rparr>] \<and>
         jget (jget (jget (emit_message_pr mt (chain cs self) ev args) ''data'') ''opts'') ''rooms'' =
           JArray (map JStr (rooms (chain cs self)))"
proof -
  let ?b = "chain cs self" and ?b' = "chain cs' self"
  have b: "?b = BroadcastOperator_to self (Multiple (concat (map call_rooms cs)))"
    by (rule chain_room_calls [OF assms(2)])
  have b': "?b' = BroadcastOperator_to self (Multiple (concat (map call_rooms cs')))"
    by (rule chain_room_calls [OF assms(3)])
  have d: "distinct (rooms ?b)" and d': "distinct (rooms ?b')"
    using assms(1) by (simp_all add: b b' rooms_to distinct_foldl_Set_add)
  have s: "set (rooms ?b) = set (rooms self) \<union> (\<Union>c \<in> set cs. set (call_rooms c))"
    by (simp add: b rooms_to set_foldl_Set_add)
  have s': "set (rooms ?b') = set (rooms self) \<union> (\<Union>c \<in> set cs'. set (call_rooms c))"
    by (simp add: b' rooms_to set_foldl_Set_add)
  have same: "set (rooms ?b') = set (rooms ?b)"
    using s s' assms(4) by simp
  have bo: "BroadcastOperator.broadcastOptions ?b = BroadcastOperator.broadcastOptions self"
    "BroadcastOperator.broadcastOptions ?b' = BroadcastOperator.broadcastOptions self"
    by (simp_all add: b b' rooms_to)
  have ch: "emit_channel_sr ?b' = emit_channel_sr ?b"
    unfolding emit_channel_sr_def Let_def bo
    by (rule same_set_same_channel [OF d' d same])
  have ali: "BroadcastOperator_in self room = BroadcastOperator_to self room"
    by (simp add: BroadcastOperator_in_def)
  have two: "BroadcastOperator_in (BroadcastOperator_to self (Single a)) (Single b) =
      BroadcastOperator_to self (Multiple [a, b])"
    by (simp add: BroadcastOperator_in_def BroadcastOperator_to_def)
  have sr: "snd (BroadcastOperator_emit_sr ?b ev args sb) =
      sb @ [\<lparr>body = encode (BroadcastOptions.parser (BroadcastOperator.broadcastOptions self))
                       (JArray [JStr ''emitter'', emit_packet ?b ev args, emit_opts ?b]),
              contentType = ''application/octet-stream'',
              subject = Some (emit_channel_sr ?b),
              applicationProperties = None\<rparr>]"
    by (simp add: emit_sr_sends [OF assms(5)] bo emit_message_sr_def UID_def)
  have pr: "snd (BroadcastOperator_emit_pr mt ?b ev args sb) =
      sb @ [\<lparr>body = encode (BroadcastOptions.parser (BroadcastOperator.broadcastOptions self))
                       (emit_message_pr mt ?b ev args),
              contentType = ''application/octet-stream'',
              subject = None,
              applicationProperties =
                Some [(''nsp'', JStr (BroadcastOptions.nsp (BroadcastOperator.broadcastOptions self)))]\<rparr>]"
    by (simp add: emit_pr_sends [OF assms(5)] bo)
  have ex: "exceptRooms ?b = exceptRooms self" and fl: "flags ?b = flags self"
    by (simp_all add: b rooms_to)
  show ?thesis
    using b d s ex fl same ch ali two sr pr
    by (simp only: emit_opts_fields emit_message_pr_fields simp_thms)
qed

theorem rooms_accumulate_witness:
  "rooms (chain [To (Multiple [''a'', ''b'']), To (Multiple [''b'', ''c''])]
            (BroadcastOperator_new (Emitter.broadcastOptions (Emitter_new id None None)))) =
     [''a'', ''b'', ''c''] \<and>
   set (rooms (chain [In (Single ''c''), To (Multiple [''b'', ''a'', ''c'']), To (Single ''b'')]
            (BroadcastOperator_new (Emitter.broadcastOptions (Emitter_new id None None))))) =
     {''a'', ''b'', ''c''} \<and>
   snd (BroadcastOperator_emit_sr
          (chain [To (Multiple [''a'', ''b'']), To (Multiple [''b'', ''c''])]
             (BroadcastOperator_new (Emitter.broadcastOptions (Emitter_new id None None))))
          ''test'' [] []) =
     [\<lparr>body = JArray
                [JStr ''emitter'',
                 JObject [(''type'', JNum 2), (''data'', JArray [JStr ''test'']), (''nsp'', JStr ''/'')],
                 JObject [(''rooms'', JArray [JStr ''a'', JStr ''b'', JStr ''c'']),
                          (''flags'', JObject []), (''except'', JArray [])]],
       contentType = ''application/octet-stream'',
       subject = Some ''socket.io#/#'',
       applicationProperties = None\<rparr>]"
proof -
  let ?self = "BroadcastOperator_new (Emitter.broadcastOptions (Emitter_new id None None))"
  let ?cs = "[To (Multiple [''a'', ''b'']), To (Multiple [''b'', ''c''])]"
  let ?cs' = "[In (Single ''c''), To (Multiple [''b'', ''a'', ''c'']), To (Single ''b'')]"
  have 1: "distinct (rooms ?self)"
    by (simp add: BroadcastOperator_new_def)
  have 2: "\<forall>c \<in> set ?cs. room_call c" and 3: "\<forall>c \<in> set ?cs'. room_call c"
    by simp_all
  have 4: "(\<Union>c \<in> set ?cs. set (call_rooms c)) = (\<Union>c \<in> set ?cs'. set (call_rooms c))"
    by auto
  have 5: "''test'' \<notin> set RESERVED_EVENTS"
    by (simp add: RESERVED_EVENTS_def)
  note T = rooms_accumulate [OF 1 2 3 4 5, where args = "[]" and sb = "[]" and mt = "\<lambda>t. 3"
      and room = "Single ''a''" and a = "''a''" and b = "''b''"]
  from T have A: "set (rooms (chain ?cs' ?self)) = set (rooms (chain ?cs ?self))"
    by blast
  from T have B: "snd (BroadcastOperator_emit_sr (chain ?cs ?self) ''test'' [] []) =
      [] @ [\<lparr>body = encode (BroadcastOptions.parser (BroadcastOperator.broadcastOptions ?self))
                       (JArray [JStr ''emitter'', emit_packet (chain ?cs ?self) ''test'' [],
                                emit_opts (chain ?cs ?self)]),
              contentType = ''application/octet-stream'',
              subject = Some (emit_channel_sr (chain ?cs ?self)),
              applicationProperties = None\<rparr>]"
    by blast
  have c: "chain ?cs ?self =
      \<lparr>BroadcastOperator.broadcastOptions = Emitter.broadcastOptions (Emitter_new id None None),
       rooms = [''a'', ''b'', ''c''], exceptRooms = [], flags = []\<rparr>"
    by (simp add: chain_def BroadcastOperator_to_def BroadcastOperator_new_def Set_add_def)
  show ?thesis
    using A B unfolding c
    by (simp add: Emitter_new_default emit_packet_def emit_opts_def emit_channel_sr_def
        spread_def PacketType_EVENT_def BroadcastOperator_new_def)
qed

subsection \<open>What the terminal calls send\<close>

lemma terminal_sr_sends:
  "\<not> throws t \<Longrightarrow>
   terminal_sr t self sb =
     (Inr (case t of Emit ev args \<Rightarrow> JBool True | _ \<Rightarrow> JUndefined),
      sb @ [\<lparr>body = (case t of
                        Emit ev args \<Rightarrow>
                          encode (BroadcastOptions.parser (BroadcastOperator.broadcastOptions self))
                            (terminal_message_sr t self)
                      | _ \<Rightarrow> JSON_stringify (terminal_message_sr t self)),
              contentType = ''application/octet-stream'',
              subject = Some (case t of
                        Emit ev args \<Rightarrow> emit_channel_sr self
                      | _ \<Rightarrow> requestChannel (BroadcastOperator.broadcastOptions self)),
              applicationProperties = None\<rparr>])"
  by (cases t)
    (simp_all add: returned_def emit_sr_sends BroadcastOperator_socketsJoin_sr_def
      BroadcastOperator_socketsLeave_sr_def BroadcastOperator_disconnectSockets_sr_def
      sendMessage_sr_def Let_def)

lemma terminal_pr_sends:
  "\<not> throws t \<Longrightarrow>
   terminal_pr mt t self sb =
     (Inr (case t of Emit ev args \<Rightarrow> JBool True | _ \<Rightarrow> JUndefined),
      sb @ [\<lparr>body = encode (BroadcastOptions.parser (BroadcastOperator.broadcastOptions self))
                       (terminal_message_pr mt t self),
              contentType = ''application/octet-stream'',
              subject = None,
              applicationProperties =
                Some [(''nsp'', JStr (BroadcastOptions.nsp (BroadcastOperator.broadcastOptions self)))]\<rparr>])"
  by (cases t)
    (simp_all add: returned_def emit_pr_sends BroadcastOperator_socketsJoin_pr_def
      BroadcastOperator_socketsLeave_pr_def BroadcastOperator_disconnectSockets_pr_def
      BroadcastOperator_sendMessage_pr_def Let_def)

lemma terminal_throws:
  "throws t \<Longrightarrow>
   terminal_sr t self sb =
     (Inl (Error (''\"'' @ (case t of Emit ev args \<Rightarrow> ev | _ \<Rightarrow> []) @
                  ''\" is a reserved event name'')), sb) \<and>
   terminal_pr mt t self sb =
     (Inl (Error (''\"'' @ (case t of Emit ev args \<Rightarrow> ev | _ \<Rightarrow> []) @
                  ''\" is a reserved event name'')), sb)"
  by (cases t) (simp_all add: returned_def emit_throws)

lemma criteria_sr_fields:
  "jget (criteria_sr t (terminal_message_sr t self)) ''rooms'' = JArray (map JStr (rooms self))"
  "jget (criteria_sr t (terminal_message_sr t self)) ''except'' = JArray (map JStr (exceptRooms self))"
  by (cases t;
      simp add: emit_message_sr_def emit_opts_fields socketsJoin_message_sr_def
        socketsLeave_message_sr_def disconnectSockets_message_sr_def spread_def)+

lemma criteria_pr_fields:
  "jget (criteria_pr (terminal_message_pr mt t self)) ''rooms'' = JArray (map JStr (rooms self))"
  "jget (criteria_pr (terminal_message_pr mt t self)) ''except'' = JArray (map JStr (exceptRooms self))"
  "jget (criteria_pr (terminal_message_pr mt t self)) ''flags'' = JObject (flags self)"
  by (cases t;
      simp add: criteria_pr_def emit_message_pr_fields emit_opts_fields socketsJoin_message_pr_def
        socketsLeave_message_pr_def disconnectSockets_message_pr_def spread_def)+

subsection \<open>Rooms and excluded rooms are independent\<close>

text \<open>
  C4. \<open>except\<close> leaves the rooms of an operator as they are and \<open>to\<close> leaves the
  excluded rooms as they are; after \<open>.to(r).except(r)\<close> the room \<open>r\<close> is in both sets.
  Every terminal call that does not throw sends, in both versions, one message
  whose criteria hold the rooms and the excluded rooms of the operator as they are,
  element by element in insertion order: nothing is removed from either array.
\<close>

theorem except_is_independent_of_rooms:
  assumes "\<not> throws t"
  shows "rooms (BroadcastOperator_except self room) = rooms self \<and>
         exceptRooms (BroadcastOperator_to self room) = exceptRooms self \<and>
         r \<in> set (rooms (BroadcastOperator_except (BroadcastOperator_to self (Single r)) (Single r))) \<and>
         r \<in> set (exceptRooms (BroadcastOperator_except (BroadcastOperator_to self (Single r)) (Single r))) \<and>
         snd (terminal_sr t self sb) =
           sb @ [\<lparr>body = (case t of
                             Emit ev args \<Rightarrow>
                               encode (BroadcastOptions.parser (BroadcastOperator.broadcastOptions self))
                                 (terminal_message_sr t self)
                           | _ \<Rightarrow> JSON_stringify (terminal_message_sr t self)),
                   contentType = ''application/octet-stream'',
                   subject = Some (case t of
                             Emit ev args \<Rightarrow> emit_channel_sr self
                           | _ \<Rightarrow> requestChannel (BroadcastOperator.broadcastOptions self)),
                   applicationProperties = None\<rparr>] \<and>
         jget (criteria_sr t (terminal_message_sr t self)) ''rooms'' = JArray (map JStr (rooms self)) \<and>
         jget (criteria_sr t (terminal_message_sr t self)) ''except'' =
           JArray (map JStr (exceptRooms self)) \<and>
         snd (terminal_pr mt t self sb) =
           sb @ [\<lparr>body = encode (BroadcastOptions.parser (BroadcastOperator.broadcastOptions self))
                            (terminal_message_pr mt t self),
                   contentType = ''application/octet-stream'',
                   subject = None,
                   applicationProperties =
                     Some [(''nsp'', JStr (BroadcastOptions.nsp (BroadcastOperator.broadcastOptions self)))]\<rparr>] \<and>
         jget (criteria_pr (terminal_message_pr mt t self)) ''rooms'' = JArray (map JStr (rooms self)) \<and>
         jget (criteria_pr (terminal_message_pr mt t self)) ''except'' =
           JArray (map JStr (exceptRooms self))"
proof -
  have "rooms (BroadcastOperator_except self room) = rooms self"
    and "exceptRooms (BroadcastOperator_to self room) = exceptRooms self"
    by (simp_all add: BroadcastOperator_except_def BroadcastOperator_to_def)
  moreover have "r \<in> set (rooms (BroadcastOperator_except (BroadcastOperator_to self (Single r)) (Single r)))"
    and "r \<in> set (exceptRooms (BroadcastOperator_except (BroadcastOperator_to self (Single r)) (Single r)))"
    by (simp_all add: BroadcastOperator_except_def BroadcastOperator_to_def Set_add_def)
  ultimately show ?thesis
    by (simp add: terminal_sr_sends [OF assms] terminal_pr_sends [OF assms]
        criteria_sr_fields criteria_pr_fields)
qed

theorem except_is_independent_of_rooms_witness:
  "snd (terminal_pr (\<lambda>t. 3) (Emit ''test'' [])
          (BroadcastOperator_except
             (BroadcastOperator_to
                (BroadcastOperator_new (Emitter.broadcastOptions (Emitter_new id None None)))
                (Single ''room1''))
             (Single ''room1'')) []) =
     [\<lparr>body = JObject
                [(''uid'', JStr ''emitter''), (''type'', JNum 3),
                 (''data'', JObject
                    [(''packet'', JObject [(''type'', JNum 2), (''data'', JArray [JStr ''test'']),
                                           (''nsp'', JStr ''/'')]),
                     (''opts'', JObject [(''rooms'', JArray [JStr ''room1'']), (''flags'', JObject []),
                                         (''except'', JArray [JStr ''room1''])])]),
                 (''nsp'', JStr ''/'')],
       contentType = ''application/octet-stream'',
       subject = None,
       applicationProperties = Some [(''nsp'', JStr ''/'')]\<rparr>]"
proof -
  let ?b = "BroadcastOperator_except
             (BroadcastOperator_to
                (BroadcastOperator_new (Emitter.broadcastOptions (Emitter_new id None None)))
                (Single ''room1''))
             (Single ''room1'')"
  have n: "\<not> throws (Emit ''test'' [])"
    by (simp add: RESERVED_EVENTS_def)
  have "snd (terminal_pr (\<lambda>t. 3) (Emit ''test'' []) ?b []) =
      [] @ [\<lparr>body = encode (BroadcastOptions.parser (BroadcastOperator.broadcastOptions ?b))
                       (terminal_message_pr (\<lambda>t. 3) (Emit ''test'' []) ?b),
              contentType = ''application/octet-stream'',
              subject = None,
              applicationProperties =
                Some [(''nsp'', JStr (BroadcastOptions.nsp (BroadcastOperator.broadcastOptions ?b)))]\<rparr>]"
    using except_is_independent_of_rooms [OF n, where self = ?b and sb = "[]" and mt = "\<lambda>t. 3"
        and room = "Single ''a''" and r = "''a''"]
    by blast
  then show ?thesis
    by (simp add: Emitter_new_default BroadcastOperator_new_def BroadcastOperator_to_def
        BroadcastOperator_except_def Set_add_def emit_message_pr_def emit_packet_def emit_opts_def
        spread_def PacketType_EVENT_def UID_def)
qed

subsection \<open>Target rooms and criteria of \<open>socketsJoin\<close> and \<open>socketsLeave\<close>\<close>

lemma socketsJoin_message_sr_fields:
  "jget (socketsJoin_message_sr self rs) ''type'' = JNum 2"
  "jget (socketsJoin_message_sr self rs) ''rooms'' = JArray (map JStr (listify rs))"
  "jget (socketsJoin_message_sr self rs) ''opts'' =
     JObject [(''rooms'', JArray (map JStr (rooms self))),
              (''except'', JArray (map JStr (exceptRooms self)))]"
  by (simp_all add: socketsJoin_message_sr_def spread_def)

lemma socketsLeave_message_sr_fields:
  "jget (socketsLeave_message_sr self rs) ''type'' = JNum 3"
  "jget (socketsLeave_message_sr self rs) ''rooms'' = JArray (map JStr (listify rs))"
  "jget (socketsLeave_message_sr self rs) ''opts'' =
     JObject [(''rooms'', JArray (map JStr (rooms self))),
              (''except'', JArray (map JStr (exceptRooms self)))]"
  by (simp_all add: socketsLeave_message_sr_def spread_def)

lemma socketsJoin_message_pr_fields:
  "jget (socketsJoin_message_pr mt self rs) ''uid'' = JStr ''emitter''"
  "jget (socketsJoin_message_pr mt self rs) ''type'' = JNum (mt SOCKETS_JOIN)"
  "jget (socketsJoin_message_pr mt self rs) ''nsp'' =
     JStr (BroadcastOptions.nsp (BroadcastOperator.broadcastOptions self))"
  "jget (jget (socketsJoin_message_pr mt self rs) ''data'') ''rooms'' = JArray (map JStr (listify rs))"
  "jget (jget (socketsJoin_message_pr mt self rs) ''data'') ''opts'' =
     JObject [(''rooms'', JArray (map JStr (rooms self))),
              (''except'', JArray (map JStr (exceptRooms self))),
              (''flags'', JObject (flags self))]"
  by (simp_all add: socketsJoin_message_pr_def spread_def UID_def)

lemma socketsLeave_message_pr_fields:
  "jget (socketsLeave_message_pr mt self rs) ''uid'' = JStr ''emitter''"
  "jget (socketsLeave_message_pr mt self rs) ''type'' = JNum (mt SOCKETS_LEAVE)"
  "jget (socketsLeave_message_pr mt self rs) ''nsp'' =
     JStr (BroadcastOptions.nsp (BroadcastOperator.broadcastOptions self))"
  "jget (jget (socketsLeave_message_pr mt self rs) ''data'') ''rooms'' = JArray (map JStr (listify rs))"
  "jget (jget (socketsLeave_message_pr mt self rs) ''data'') ''opts'' =
     JObject [(''rooms'', JArray (map JStr (rooms self))),
              (''except'', JArray (map JStr (exceptRooms self))),
              (''flags'', JObject (flags self))]"
  by (simp_all add: socketsLeave_message_pr_def spread_def UID_def)

text \<open>
  C5, as stated, fails in the first version: the criteria of its \<open>socketsJoin\<close> request
  are \<open>{rooms, except}\<close> only. After \<open>.in("r2").volatile\<close> the operator has the flag
  \<open>volatile\<close>, the request has no \<open>opts.flags\<close>, and the message sent is the one the
  operator without the flag sends.
\<close>

theorem socketsJoin_sr_criteria_without_flags:
  "flags (BroadcastOperator_volatile
            (BroadcastOperator_in
               (BroadcastOperator_new (Emitter.broadcastOptions (Emitter_new id None None)))
               (Single ''r2''))) = [(''volatile'', JBool True)] \<and>
   jget (jget (socketsJoin_message_sr
                 (BroadcastOperator_volatile
                    (BroadcastOperator_in
                       (BroadcastOperator_new (Emitter.broadcastOptions (Emitter_new id None None)))
                       (Single ''r2'')))
                 (Single ''r1'')) ''opts'') ''flags'' = JUndefined \<and>
   jget (jget (socketsJoin_message_sr
                 (BroadcastOperator_volatile
                    (BroadcastOperator_in
                       (BroadcastOperator_new (Emitter.broadcastOptions (Emitter_new id None None)))
                       (Single ''r2'')))
                 (Single ''r1'')) ''opts'') ''flags'' \<noteq>
     JObject (flags (BroadcastOperator_volatile
                (BroadcastOperator_in
                   (BroadcastOperator_new (Emitter.broadcastOptions (Emitter_new id None None)))
                   (Single ''r2'')))) \<and>
   BroadcastOperator_socketsJoin_sr
     (BroadcastOperator_volatile
        (BroadcastOperator_in
           (BroadcastOperator_new (Emitter.broadcastOptions (Emitter_new id None None)))
           (Single ''r2'')))
     (Single ''r1'') [] =
     (Inr (),
      [\<lparr>body = JStr ''{\"type\":2,\"opts\":{\"rooms\":[\"r2\"],\"except\":[]},\"rooms\":[\"r1\"]}'',
        contentType = ''application/octet-stream'',
        subject = Some ''socket.io-request#/#'',
        applicationProperties = None\<rparr>]) \<and>
   BroadcastOperator_socketsJoin_sr
     (BroadcastOperator_in
        (BroadcastOperator_new (Emitter.broadcastOptions (Emitter_new id None None)))
        (Single ''r2''))
     (Single ''r1'') [] =
     (Inr (),
      [\<lparr>body = JStr ''{\"type\":2,\"opts\":{\"rooms\":[\"r2\"],\"except\":[]},\"rooms\":[\"r1\"]}'',
        contentType = ''application/octet-stream'',
        subject = Some ''socket.io-request#/#'',
        applicationProperties = None\<rparr>])"
proof -
  have json: "JSON_stringify (JObject [(''type'', JNum 2),
      (''opts'', JObject [(''rooms'', JArray [JStr ''r2'']), (''except'', JArray [])]),
      (''rooms'', JArray [JStr ''r1''])]) =
    JStr ''{\"type\":2,\"opts\":{\"rooms\":[\"r2\"],\"except\":[]},\"rooms\":[\"r1\"]}''"
    by code_simp
  show ?thesis
    by (simp add: Emitter_new_default BroadcastOperator_new_def BroadcastOperator_in_def
        BroadcastOperator_to_def BroadcastOperator_volatile_def Object_assign_def Set_add_def
        BroadcastOperator_socketsJoin_sr_def socketsJoin_message_sr_def sendMessage_sr_def
        spread_def json)
qed

text \<open>
  C5, amended. \<open>socketsJoin\<close> and \<open>socketsLeave\<close> never throw and send one message. Its
  target rooms are the argument, made a list, and its criteria hold the rooms and
  the excluded rooms of the operator; target and criteria are separate properties
  (\<open>rooms\<close> and \<open>opts\<close>; \<open>data.rooms\<close> and \<open>data.opts\<close>). The second version also
  carries the flags of the operator in the criteria; the first version carries no
  flags.
\<close>

theorem socketsJoin_target_and_criteria:
  "BroadcastOperator_socketsJoin_sr self rs sb =
     (Inr (),
      sb @ [\<lparr>body = JSON_stringify (socketsJoin_message_sr self rs),
              contentType = ''application/octet-stream'',
              subject = Some (requestChannel (BroadcastOperator.broadcastOptions self)),
              applicationProperties = None\<rparr>]) \<and>
   socketsJoin_message_sr self rs =
     JObject [(''type'', JNum 2),
              (''opts'', JObject [(''rooms'', JArray (map JStr (rooms self))),
                                  (''except'', JArray (map JStr (exceptRooms self)))]),
              (''rooms'', JArray (map JStr (listify rs)))] \<and>
   BroadcastOperator_socketsLeave_sr self rs sb =
     (Inr (),
      sb @ [\<lparr>body = JSON_stringify (socketsLeave_message_sr self rs),
              contentType = ''application/octet-stream'',
              subject = Some (requestChannel (BroadcastOperator.broadcastOptions self)),
              applicationProperties = None\<rparr>]) \<and>
   socketsLeave_message_sr self rs =
     JObject [(''type'', JNum 3),
              (''opts'', JObject [(''rooms'', JArray (map JStr (rooms self))),
                                  (''except'', JArray (map JStr (exceptRooms self)))]),
              (''rooms'', JArray (map JStr (listify rs)))] \<and>
   BroadcastOperator_socketsJoin_pr mt self rs sb =
     (Inr (),
      sb @ [\<lparr>body = encode (BroadcastOptions.parser (BroadcastOperator.broadcastOptions self))
                       (socketsJoin_message_pr mt self rs),
              contentType = ''application/octet-stream'',
              subject = None,
              applicationProperties =
                Some [(''nsp'', JStr (BroadcastOptions.nsp (BroadcastOperator.broadcastOptions self)))]\<rparr>]) \<and>
   jget (socketsJoin_message_pr mt self rs) ''type'' = JNum (mt SOCKETS_JOIN) \<and>
   jget (jget (socketsJoin_message_pr mt self rs) ''data'') ''rooms'' = JArray (map JStr (listify rs)) \<and>
   jget (jget (socketsJoin_message_pr mt self rs) ''data'') ''opts'' =
     JObject [(''rooms'', JArray (map JStr (rooms self))),
              (''except'', JArray (map JStr (exceptRooms self))),
              (''flags'', JObject (flags self))] \<and>
   BroadcastOperator_socketsLeave_pr mt self rs sb =
     (Inr (),
      sb @ [\<lparr>body = encode (BroadcastOptions.parser (BroadcastOperator.broadcastOptions self))
                       (socketsLeave_message_pr mt self rs),
              contentType = ''application/octet-stream'',
              subject = None,
              applicationProperties =
                Some [(''nsp'', JStr (BroadcastOptions.nsp (BroadcastOperator.broadcastOptions self)))]\<rparr>]) \<and>
   jget (socketsLeave_message_pr mt self rs) ''type'' = JNum (mt SOCKETS_LEAVE) \<and>
   jget (jget (socketsLeave_message_pr mt self rs) ''data'') ''rooms'' = JArray (map JStr (listify rs)) \<and>
   jget (jget (socketsLeave_message_pr mt self rs) ''data'') ''opts'' =
     JObject [(''rooms'', JArray (map JStr (rooms self))),
              (''except'', JArray (map JStr (exceptRooms self))),
              (''flags'', JObject (flags self))]"
  by (simp add: BroadcastOperator_socketsJoin_sr_def BroadcastOperator_socketsLeave_sr_def
      BroadcastOperator_socketsJoin_pr_def BroadcastOperator_socketsLeave_pr_def
      sendMessage_sr_def BroadcastOperator_sendMessage_pr_def
      socketsJoin_message_pr_fields socketsLeave_message_pr_fields)
    (simp add: socketsJoin_message_sr_def socketsLeave_message_sr_def spread_def)

theorem socketsJoin_target_and_criteria_witness:
  "BroadcastOperator_socketsJoin_sr
     (BroadcastOperator_in
        (BroadcastOperator_new (Emitter.broadcastOptions (Emitter_new id None None)))
        (Single ''r2''))
     (Single ''r1'') [] =
     (Inr (),
      [\<lparr>body = JStr ''{\"type\":2,\"opts\":{\"rooms\":[\"r2\"],\"except\":[]},\"rooms\":[\"r1\"]}'',
        contentType = ''application/octet-stream'',
        subject = Some ''socket.io-request#/#'',
        applicationProperties = None\<rparr>]) \<and>
   BroadcastOperator_socketsJoin_pr (\<lambda>t. 4)
     (BroadcastOperator_in
        (BroadcastOperator_new (Emitter.broadcastOptions (Emitter_new id None None)))
        (Single ''r2''))
     (Single ''r1'') [] =
     (Inr (),
      [\<lparr>body = JObject
                 [(''uid'', JStr ''emitter''), (''type'', JNum 4),
                  (''data'', JObject
                     [(''opts'', JObject [(''rooms'', JArray [JStr ''r2'']), (''except'', JArray []),
                                          (''flags'', JObject [])]),
                      (''rooms'', JArray [JStr ''r1''])]),
                  (''nsp'', JStr ''/'')],
        contentType = ''application/octet-stream'',
        subject = None,
        applicationProperties = Some [(''nsp'', JStr ''/'')]\<rparr>])"
proof -
  let ?b = "BroadcastOperator_in
        (BroadcastOperator_new (Emitter.broadcastOptions (Emitter_new id None None)))
        (Single ''r2'')"
  have json: "JSON_stringify (JObject [(''type'', JNum 2),
      (''opts'', JObject [(''rooms'', JArray [JStr ''r2'']), (''except'', JArray [])]),
      (''rooms'', JArray [JStr ''r1''])]) =
    JStr ''{\"type\":2,\"opts\":{\"rooms\":[\"r2\"],\"except\":[]},\"rooms\":[\"r1\"]}''"
    by code_simp
  have b: "?b = \<lparr>BroadcastOperator.broadcastOptions = Emitter.broadcastOptions (Emitter_new id None None),
                 rooms = [''r2''], exceptRooms = [], flags = []\<rparr>"
    by (simp add: BroadcastOperator_in_def BroadcastOperator_to_def BroadcastOperator_new_def
        Set_add_def)
  note T = socketsJoin_target_and_criteria [of ?b "Single ''r1''" "[]" "\<lambda>t. 4"]
  from T have sr: "BroadcastOperator_socketsJoin_sr ?b (Single ''r1'') [] =
     (Inr (),
      [] @ [\<lparr>body = JSON_stringify (socketsJoin_message_sr ?b (Single ''r1'')),
              contentType = ''application/octet-stream'',
              subject = Some (requestChannel (BroadcastOperator.broadcastOptions ?b)),
              applicationProperties = None\<rparr>])"
    and m: "socketsJoin_message_sr ?b (Single ''r1'') =
     JObject [(''type'', JNum 2),
              (''opts'', JObject [(''rooms'', JArray (map JStr (rooms ?b))),
                                  (''except'', JArray (map JStr (exceptRooms ?b)))]),
              (''rooms'', JArray (map JStr (listify (Single ''r1''))))]"
    and pr: "BroadcastOperator_socketsJoin_pr (\<lambda>t. 4) ?b (Single ''r1'') [] =
     (Inr (),
      [] @ [\<lparr>body = encode (BroadcastOptions.parser (BroadcastOperator.broadcastOptions ?b))
                       (socketsJoin_message_pr (\<lambda>t. 4) ?b (Single ''r1'')),
              contentType = ''application/octet-stream'',
              subject = None,
              applicationProperties =
                Some [(''nsp'', JStr (BroadcastOptions.nsp (BroadcastOperator.broadcastOptions ?b)))]\<rparr>])"
    by blast+
  show ?thesis
    unfolding sr pr m unfolding b
    by (simp add: json Emitter_new_default socketsJoin_message_pr_def spread_def UID_def)
qed

subsection \<open>Namespaces\<close>

lemma Emitter_new_fields:
  "Emitter.nsp (Emitter_new enc opts_arg nsp_arg) = (case nsp_arg of None \<Rightarrow> ''/'' | Some n \<Rightarrow> n)"
  "BroadcastOptions.nsp (Emitter.broadcastOptions (Emitter_new enc opts_arg nsp_arg)) =
     Emitter.nsp (Emitter_new enc opts_arg nsp_arg)"
  "broadcastChannel (Emitter.broadcastOptions (Emitter_new enc opts_arg nsp_arg)) =
     key_string (key (opts (Emitter_new enc opts_arg nsp_arg))) @ ''#'' @
     Emitter.nsp (Emitter_new enc opts_arg nsp_arg) @ ''#''"
  "requestChannel (Emitter.broadcastOptions (Emitter_new enc opts_arg nsp_arg)) =
     key_string (key (opts (Emitter_new enc opts_arg nsp_arg))) @ ''-request#'' @
     Emitter.nsp (Emitter_new enc opts_arg nsp_arg) @ ''#''"
  by (simp_all add: Emitter_new_def Let_def)

lemma Emitter_new_key:
  "key (opts (Emitter_new enc opts_arg nsp_arg)) =
     Some (case opts_arg of
             None \<Rightarrow> ''socket.io''
           | Some s \<Rightarrow> (case key s of None \<Rightarrow> ''socket.io'' | Some k \<Rightarrow> k))"
  by (simp add: Emitter_new_def Let_def Object_assign_opts_def split: option.splits)

lemma Emitter_new_parser:
  "EmitterOptions.parser (opts (Emitter_new enc opts_arg nsp_arg)) =
     Some (BroadcastOptions.parser (Emitter.broadcastOptions (Emitter_new enc opts_arg nsp_arg)))"
  "BroadcastOptions.parser (Emitter.broadcastOptions (Emitter_new enc opts_arg nsp_arg)) =
     (case opts_arg of
        None \<Rightarrow> \<lparr>encode = enc\<rparr>
      | Some s \<Rightarrow> (case EmitterOptions.parser s of None \<Rightarrow> \<lparr>encode = enc\<rparr> | Some p \<Rightarrow> p))"
  by (simp_all add: Emitter_new_def Let_def Object_assign_opts_def split: option.splits)

text \<open>
  The part of C6 that holds: \<open>of\<close> binds the new emitter to the name with \<open>/\<close> put
  before it exactly when the name does not start with \<open>/\<close>, so the namespace of an
  emitter made by \<open>of\<close> starts with \<open>/\<close>, and \<open>of\<close> on such a namespace changes nothing.
  The key and the parser are handed on.
\<close>

lemma Emitter_of_nsp:
  "Emitter.nsp (Emitter_of enc e name) =
     (if name \<noteq> [] \<and> hd name = CHR ''/'' then name else ''/'' @ name)"
  "Emitter.nsp (Emitter_of enc e name) \<noteq> [] \<and> hd (Emitter.nsp (Emitter_of enc e name)) = CHR ''/''"
  "Emitter.nsp (Emitter_of enc e (Emitter.nsp (Emitter_of enc e' name))) =
     Emitter.nsp (Emitter_of enc e' name)"
  by (cases name; simp add: Emitter_of_def Emitter_new_fields)+

lemma Emitter_of_opts:
  "opts (Emitter_new enc opts_arg nsp_arg) = o' \<Longrightarrow>
   opts (Emitter_of enc (Emitter_new enc opts_arg nsp_arg) name) = o'"
  by (auto simp: Emitter_of_def Emitter_new_def Let_def Object_assign_opts_def split: option.splits)

text \<open>
  C6 fails for the constructor, which the README of the repository documents with
  the words "a leading \<open>/\<close> is automatically added if missing":
  \<open>new Emitter(sbSender, undefined, "custom")\<close> binds the emitter, its broadcast options
  and both channels to \<open>custom\<close> as it is given, while \<open>of("custom")\<close> and
  \<open>of("/custom")\<close> on the default emitter bind \<open>/custom\<close>.
\<close>

theorem Emitter_new_keeps_nsp_as_given:
  "Emitter.nsp (Emitter_new enc None (Some ''custom'')) = ''custom'' \<and>
   BroadcastOptions.nsp (Emitter.broadcastOptions (Emitter_new enc None (Some ''custom''))) = ''custom'' \<and>
   broadcastChannel (Emitter.broadcastOptions (Emitter_new enc None (Some ''custom''))) =
     ''socket.io#custom#'' \<and>
   requestChannel (Emitter.broadcastOptions (Emitter_new enc None (Some ''custom''))) =
     ''socket.io-request#custom#'' \<and>
   hd (Emitter.nsp (Emitter_new enc None (Some ''custom''))) \<noteq> CHR ''/'' \<and>
   Emitter.nsp (Emitter_of enc (Emitter_new enc None None) ''custom'') = ''/custom'' \<and>
   Emitter.nsp (Emitter_of enc (Emitter_new enc None None) ''/custom'') = ''/custom''"
  by (simp add: Emitter_new_fields Emitter_new_key key_string_def Emitter_of_nsp)

subsection \<open>\<open>serverSideEmit\<close>\<close>

lemma typeof_function: "typeof v = ''function'' \<longleftrightarrow> (\<exists>f. v = JFunction f)"
  by (cases v) simp_all

lemma withAck_iff:
  "typeof (last_arg args) = ''function'' \<longleftrightarrow> args \<noteq> [] \<and> (\<exists>f. last args = JFunction f)"
  by (cases args) (simp_all add: last_arg_def typeof_function)

lemma serverSideEmit_message_pr_fields:
  "jget (serverSideEmit_message_pr mt e args) ''uid'' = JStr ''emitter''"
  "jget (serverSideEmit_message_pr mt e args) ''type'' = JNum (mt MessageType.SERVER_SIDE_EMIT)"
  "jget (serverSideEmit_message_pr mt e args) ''nsp'' = JStr (Emitter.nsp e)"
  "jget (serverSideEmit_message_pr mt e args) ''data'' = JObject [(''packet'', JArray args)]"
  by (simp_all add: serverSideEmit_message_pr_def UID_def)

text \<open>
  C7. \<open>serverSideEmit\<close> throws exactly when the argument list is not empty and its
  last element is a function; then the sender is as it was. Otherwise it returns
  and hands one message to the sender. In the first version the body is the JSON
  text of \<open>{uid, type: 6, data: args}\<close> and the namespace is part of the subject
  \<open>key-request#nsp#\<close>; in the second version the body is the parser's encoding of the
  \<open>ClusterMessage\<close> of type \<open>SERVER_SIDE_EMIT\<close> with \<open>data.packet = args\<close> and the
  namespace in \<open>nsp\<close>, which is also an application property. The emitter is any
  emitter the constructor makes.
\<close>

theorem serverSideEmit_acknowledgement:
  "(fst (Emitter_serverSideEmit_sr (Emitter_new enc opts_arg nsp_arg) args sb) =
       Inl (Error ''Acknowledgements are not supported'')
     \<longleftrightarrow> args \<noteq> [] \<and> (\<exists>f. last args = JFunction f)) \<and>
   (fst (Emitter_serverSideEmit_pr mt (Emitter_new enc opts_arg nsp_arg) args sb) =
       Inl (Error ''Acknowledgements are not supported'')
     \<longleftrightarrow> args \<noteq> [] \<and> (\<exists>f. last args = JFunction f)) \<and>
   (args \<noteq> [] \<and> (\<exists>f. last args = JFunction f) \<longrightarrow>
      snd (Emitter_serverSideEmit_sr (Emitter_new enc opts_arg nsp_arg) args sb) = sb \<and>
      snd (Emitter_serverSideEmit_pr mt (Emitter_new enc opts_arg nsp_arg) args sb) = sb) \<and>
   (\<not> (args \<noteq> [] \<and> (\<exists>f. last args = JFunction f)) \<longrightarrow>
      Emitter_serverSideEmit_sr (Emitter_new enc opts_arg nsp_arg) args sb =
        (Inr (),
         sb @ [\<lparr>body = JSON_stringify
                          (JObject [(''uid'', JStr ''emitter''), (''type'', JNum 6),
                                    (''data'', JArray args)]),
                 contentType = ''application/octet-stream'',
                 subject = Some (key_string (key (opts (Emitter_new enc opts_arg nsp_arg))) @
                                 ''-request#'' @ Emitter.nsp (Emitter_new enc opts_arg nsp_arg) @ ''#''),
                 applicationProperties = None\<rparr>]) \<and>
      Emitter_serverSideEmit_pr mt (Emitter_new enc opts_arg nsp_arg) args sb =
        (Inr (),
         sb @ [\<lparr>body = encode (BroadcastOptions.parser
                                   (Emitter.broadcastOptions (Emitter_new enc opts_arg nsp_arg)))
                          (JObject [(''uid'', JStr ''emitter''),
                                    (''type'', JNum (mt MessageType.SERVER_SIDE_EMIT)),
                                    (''data'', JObject [(''packet'', JArray args)]),
                                    (''nsp'', JStr (Emitter.nsp (Emitter_new enc opts_arg nsp_arg)))]),
                 contentType = ''application/octet-stream'',
                 subject = None,
                 applicationProperties =
                   Some [(''nsp'', JStr (Emitter.nsp (Emitter_new enc opts_arg nsp_arg))),
                         (''uid'', JStr ''emitter'')]\<rparr>]))"
proof (cases "args \<noteq> [] \<and> (\<exists>f. last args = JFunction f)")
  case True
  then have "typeof (last_arg args) = ''function''"
    by (simp add: withAck_iff)
  with True show ?thesis
    by (simp add: Emitter_serverSideEmit_sr_def Emitter_serverSideEmit_pr_def)
next
  case False
  then have "typeof (last_arg args) \<noteq> ''function''"
    by (simp add: withAck_iff)
  with False show ?thesis
    by (simp add: Emitter_serverSideEmit_sr_def Emitter_serverSideEmit_pr_def
        serverSideEmit_message_sr_def serverSideEmit_message_pr_def sendMessage_sr_def
        Emitter_sendMessage_pr_def Emitter_new_fields UID_def Let_def)
qed

theorem serverSideEmit_acknowledgement_witness:
  "Emitter_serverSideEmit_sr (Emitter_new id None None) [JStr ''hello'', JFunction ''ack''] [] =
     (Inl (Error ''Acknowledgements are not supported''), []) \<and>
   Emitter_serverSideEmit_sr (Emitter_new id None None) [] [] =
     (Inr (),
      [\<lparr>body = JStr ''{\"uid\":\"emitter\",\"type\":6,\"data\":[]}'',
        contentType = ''application/octet-stream'',
        subject = Some ''socket.io-request#/#'',
        applicationProperties = None\<rparr>]) \<and>
   Emitter_serverSideEmit_pr (\<lambda>t. 9) (Emitter_new id None None) [JFunction ''f'', JStr ''world''] [] =
     (Inr (),
      [\<lparr>body = JObject [(''uid'', JStr ''emitter''), (''type'', JNum 9),
                        (''data'', JObject [(''packet'', JArray [JFunction ''f'', JStr ''world''])]),
                        (''nsp'', JStr ''/'')],
        contentType = ''application/octet-stream'',
        subject = None,
        applicationProperties = Some [(''nsp'', JStr ''/''), (''uid'', JStr ''emitter'')]\<rparr>])"
proof -
  have json: "JSON_stringify (JObject [(''uid'', JStr ''emitter''), (''type'', JNum 6),
      (''data'', JArray [])]) = JStr ''{\"uid\":\"emitter\",\"type\":6,\"data\":[]}''"
    by code_simp
  note A = serverSideEmit_acknowledgement [of id None None "[JStr ''hello'', JFunction ''ack'']" "[]" "\<lambda>t. 9"]
  note B = serverSideEmit_acknowledgement [of id None None "[]" "[]" "\<lambda>t. 9"]
  note C = serverSideEmit_acknowledgement [of id None None "[JFunction ''f'', JStr ''world'']" "[]" "\<lambda>t. 9"]
  have 1: "Emitter_serverSideEmit_sr (Emitter_new id None None) [JStr ''hello'', JFunction ''ack''] [] =
     (Inl (Error ''Acknowledgements are not supported''), [])"
    using A by (simp add: prod_eq_iff)
  have 2: "Emitter_serverSideEmit_sr (Emitter_new id None None) [] [] =
     (Inr (),
      [\<lparr>body = JStr ''{\"uid\":\"emitter\",\"type\":6,\"data\":[]}'',
        contentType = ''application/octet-stream'',
        subject = Some ''socket.io-request#/#'',
        applicationProperties = None\<rparr>])"
    using B by (simp add: json Emitter_new_default key_string_def)
  have 3: "Emitter_serverSideEmit_pr (\<lambda>t. 9) (Emitter_new id None None) [JFunction ''f'', JStr ''world''] [] =
     (Inr (),
      [\<lparr>body = JObject [(''uid'', JStr ''emitter''), (''type'', JNum 9),
                        (''data'', JObject [(''packet'', JArray [JFunction ''f'', JStr ''world''])]),
                        (''nsp'', JStr ''/'')],
        contentType = ''application/octet-stream'',
        subject = None,
        applicationProperties = Some [(''nsp'', JStr ''/''), (''uid'', JStr ''emitter'')]\<rparr>])"
    using C by (simp add: Emitter_new_default)
  from 1 2 3 show ?thesis by simp
qed

subsection \<open>Subjects of the first version\<close>

lemma refine_broadcastOptions:
  "BroadcastOperator.broadcastOptions (refine c self) = BroadcastOperator.broadcastOptions self"
  by (cases c)
    (simp_all add: BroadcastOperator_to_def BroadcastOperator_in_def BroadcastOperator_except_def
      BroadcastOperator_compress_def BroadcastOperator_volatile_def)

lemma chain_broadcastOptions:
  "BroadcastOperator.broadcastOptions (chain cs self) = BroadcastOperator.broadcastOptions self"
  by (induction cs arbitrary: self) (simp_all add: chain_def refine_broadcastOptions)

lemma emit_channel_sr_eq:
  "emit_channel_sr self =
     broadcastChannel (BroadcastOperator.broadcastOptions self) @
       (if length (rooms self) = 1 then hd (rooms self) @ ''#'' else [])"
proof (cases "rooms self")
  case Nil
  then show ?thesis by (simp add: emit_channel_sr_def)
next
  case (Cons r rs)
  then show ?thesis by (cases rs) (simp_all add: emit_channel_sr_def)
qed

text \<open>
  C10. In the first version, let an operator belong to an emitter that the
  constructor made with a key (\<open>socket.io\<close> when none is given) and a namespace; every
  chain of refinements keeps the operator with its emitter. \<open>emit\<close> with a name that
  is not reserved sends on the subject \<open>key#nsp#\<close>, followed by \<open>room#\<close> exactly when
  the operator has one room; \<open>socketsJoin\<close>, \<open>socketsLeave\<close>, \<open>disconnectSockets\<close> and a
  \<open>serverSideEmit\<close> that does not throw send on the subject \<open>key-request#nsp#\<close>.
\<close>

theorem subject_of_first_version:
  assumes "BroadcastOperator.broadcastOptions b =
             Emitter.broadcastOptions (Emitter_new enc opts_arg nsp_arg)"
  shows "BroadcastOperator.broadcastOptions (chain cs b) = BroadcastOperator.broadcastOptions b \<and>
         BroadcastOperator.broadcastOptions
             (BroadcastOperator_new (Emitter.broadcastOptions (Emitter_new enc opts_arg nsp_arg))) =
           Emitter.broadcastOptions (Emitter_new enc opts_arg nsp_arg) \<and>
         (ev \<notin> set RESERVED_EVENTS \<longrightarrow>
            map subject (snd (BroadcastOperator_emit_sr b ev args sb)) =
              map subject sb @
                [Some ((case opts_arg of
                          None \<Rightarrow> ''socket.io''
                        | Some s \<Rightarrow> (case key s of None \<Rightarrow> ''socket.io'' | Some k \<Rightarrow> k)) @
                       ''#'' @ (case nsp_arg of None \<Rightarrow> ''/'' | Some n \<Rightarrow> n) @ ''#'' @
                       (if length (rooms b) = 1 then hd (rooms b) @ ''#'' else []))]) \<and>
         map subject (snd (BroadcastOperator_socketsJoin_sr b rs sb)) =
           map subject sb @
             [Some ((case opts_arg of
                       None \<Rightarrow> ''socket.io''
                     | Some s \<Rightarrow> (case key s of None \<Rightarrow> ''socket.io'' | Some k \<Rightarrow> k)) @
                    ''-request#'' @ (case nsp_arg of None \<Rightarrow> ''/'' | Some n \<Rightarrow> n) @ ''#'')] \<and>
         map subject (snd (BroadcastOperator_socketsLeave_sr b rs sb)) =
           map subject sb @
             [Some ((case opts_arg of
                       None \<Rightarrow> ''socket.io''
                     | Some s \<Rightarrow> (case key s of None \<Rightarrow> ''socket.io'' | Some k \<Rightarrow> k)) @
                    ''-request#'' @ (case nsp_arg of None \<Rightarrow> ''/'' | Some n \<Rightarrow> n) @ ''#'')] \<and>
         map subject (snd (BroadcastOperator_disconnectSockets_sr b cl sb)) =
           map subject sb @
             [Some ((case opts_arg of
                       None \<Rightarrow> ''socket.io''
                     | Some s \<Rightarrow> (case key s of None \<Rightarrow> ''socket.io'' | Some k \<Rightarrow> k)) @
                    ''-request#'' @ (case nsp_arg of None \<Rightarrow> ''/'' | Some n \<Rightarrow> n) @ ''#'')] \<and>
         (typeof (last_arg args) \<noteq> ''function'' \<longrightarrow>
            map subject (snd (Emitter_serverSideEmit_sr (Emitter_new enc opts_arg nsp_arg) args sb)) =
              map subject sb @
                [Some ((case opts_arg of
                          None \<Rightarrow> ''socket.io''
                        | Some s \<Rightarrow> (case key s of None \<Rightarrow> ''socket.io'' | Some k \<Rightarrow> k)) @
                       ''-request#'' @ (case nsp_arg of None \<Rightarrow> ''/'' | Some n \<Rightarrow> n) @ ''#'')])"
proof -
  let ?e = "Emitter_new enc opts_arg nsp_arg"
  let ?K = "case opts_arg of
              None \<Rightarrow> ''socket.io''
            | Some s \<Rightarrow> (case key s of None \<Rightarrow> ''socket.io'' | Some k \<Rightarrow> k)"
  let ?N = "case nsp_arg of None \<Rightarrow> ''/'' | Some n \<Rightarrow> n"
  have bc: "broadcastChannel (BroadcastOperator.broadcastOptions b) = ?K @ ''#'' @ ?N @ ''#''"
    and rc: "requestChannel (BroadcastOperator.broadcastOptions b) = ?K @ ''-request#'' @ ?N @ ''#''"
    and rc': "requestChannel (Emitter.broadcastOptions ?e) = ?K @ ''-request#'' @ ?N @ ''#''"
    by (simp_all add: assms Emitter_new_fields Emitter_new_key key_string_def)
  have 1: "BroadcastOperator.broadcastOptions (chain cs b) = BroadcastOperator.broadcastOptions b"
    by (rule chain_broadcastOptions)
  have 2: "BroadcastOperator.broadcastOptions (BroadcastOperator_new (Emitter.broadcastOptions ?e)) =
      Emitter.broadcastOptions ?e"
    by (simp add: BroadcastOperator_new_def)
  have 3: "ev \<notin> set RESERVED_EVENTS \<longrightarrow>
      map subject (snd (BroadcastOperator_emit_sr b ev args sb)) =
        map subject sb @
          [Some (?K @ ''#'' @ ?N @ ''#'' @ (if length (rooms b) = 1 then hd (rooms b) @ ''#'' else []))]"
    by (simp add: emit_sr_sends emit_channel_sr_eq bc)
  have 4: "map subject (snd (BroadcastOperator_socketsJoin_sr b rs sb)) =
      map subject sb @ [Some (?K @ ''-request#'' @ ?N @ ''#'')]"
    by (simp add: BroadcastOperator_socketsJoin_sr_def sendMessage_sr_def rc)
  have 5: "map subject (snd (BroadcastOperator_socketsLeave_sr b rs sb)) =
      map subject sb @ [Some (?K @ ''-request#'' @ ?N @ ''#'')]"
    by (simp add: BroadcastOperator_socketsLeave_sr_def sendMessage_sr_def rc)
  have 6: "map subject (snd (BroadcastOperator_disconnectSockets_sr b cl sb)) =
      map subject sb @ [Some (?K @ ''-request#'' @ ?N @ ''#'')]"
    by (simp add: BroadcastOperator_disconnectSockets_sr_def sendMessage_sr_def rc Let_def)
  have 7: "typeof (last_arg args) \<noteq> ''function'' \<longrightarrow>
      map subject (snd (Emitter_serverSideEmit_sr ?e args sb)) =
        map subject sb @ [Some (?K @ ''-request#'' @ ?N @ ''#'')]"
    by (simp add: Emitter_serverSideEmit_sr_def sendMessage_sr_def rc' Let_def)
  from 1 2 3 4 5 6 7 show ?thesis
    by (intro conjI)
qed

theorem subject_of_first_version_witness:
  "map subject (snd (BroadcastOperator_emit_sr
      (BroadcastOperator_to
         (BroadcastOperator_new (Emitter.broadcastOptions (Emitter_new id None None)))
         (Single ''room1''))
      ''broadcast event'' [JStr ''broadcast payload''] [])) = [Some ''socket.io#/#room1#''] \<and>
   map subject (snd (BroadcastOperator_emit_sr
      (BroadcastOperator_to
         (BroadcastOperator_new
            (Emitter.broadcastOptions
               (Emitter_new id (Some \<lparr>key = Some ''chat'', EmitterOptions.parser = None\<rparr>) (Some ''/admin''))))
         (Multiple [''room1'', ''room2'']))
      ''broadcast event'' [] [])) = [Some ''chat#/admin#''] \<and>
   map subject (snd (BroadcastOperator_socketsJoin_sr
      (BroadcastOperator_to
         (BroadcastOperator_new (Emitter.broadcastOptions (Emitter_new id None None)))
         (Single ''room1''))
      (Single ''room3'') [])) = [Some ''socket.io-request#/#'']"
proof -
  let ?e = "Emitter_new id None None"
  let ?e' = "Emitter_new id (Some \<lparr>key = Some ''chat'', EmitterOptions.parser = None\<rparr>) (Some ''/admin'')"
  let ?b = "BroadcastOperator_to (BroadcastOperator_new (Emitter.broadcastOptions ?e)) (Single ''room1'')"
  let ?b' = "BroadcastOperator_to (BroadcastOperator_new (Emitter.broadcastOptions ?e'))
               (Multiple [''room1'', ''room2''])"
  have h: "BroadcastOperator.broadcastOptions ?b = Emitter.broadcastOptions ?e"
    and h': "BroadcastOperator.broadcastOptions ?b' = Emitter.broadcastOptions ?e'"
    by (simp_all add: BroadcastOperator_to_def BroadcastOperator_new_def)
  have n: "''broadcast event'' \<notin> set RESERVED_EVENTS"
    by (simp add: RESERVED_EVENTS_def)
  have r: "rooms ?b = [''room1'']" and r': "rooms ?b' = [''room1'', ''room2'']"
    by (simp_all add: BroadcastOperator_to_def BroadcastOperator_new_def Set_add_def)
  note T = subject_of_first_version [OF h, where ev = "''broadcast event''" and sb = "[]" and cs = "[]"
      and args = "[JStr ''broadcast payload'']" and rs = "Single ''room3''" and cl = None]
  note T' = subject_of_first_version [OF h', where ev = "''broadcast event''" and sb = "[]" and cs = "[]"
      and args = "[]" and rs = "Single ''room3''" and cl = None]
  from T n have 1: "map subject (snd (BroadcastOperator_emit_sr ?b ''broadcast event''
      [JStr ''broadcast payload''] [])) = [Some ''socket.io#/#room1#'']"
    by (simp add: r)
  from T' n have 2: "map subject (snd (BroadcastOperator_emit_sr ?b' ''broadcast event'' [] [])) =
      [Some ''chat#/admin#'']"
    by (simp add: r')
  from T have 3: "map subject (snd (BroadcastOperator_socketsJoin_sr ?b (Single ''room3'') [])) =
      [Some ''socket.io-request#/#'']"
    by simp
  from 1 2 3 show ?thesis by simp
qed

subsection \<open>The parser\<close>

lemma refine_with_parser: "refine c (with_parser p self) = with_parser p (refine c self)"
  by (cases c)
    (simp_all add: with_parser_def BroadcastOperator_to_def BroadcastOperator_in_def
      BroadcastOperator_except_def BroadcastOperator_compress_def BroadcastOperator_volatile_def)

lemma chain_with_parser: "chain cs (with_parser p self) = with_parser p (chain cs self)"
  by (induction cs arbitrary: self) (simp_all add: chain_def refine_with_parser)

lemma with_parser_fields:
  "rooms (with_parser p self) = rooms self"
  "exceptRooms (with_parser p self) = exceptRooms self"
  "flags (with_parser p self) = flags self"
  "BroadcastOptions.nsp (BroadcastOperator.broadcastOptions (with_parser p self)) =
     BroadcastOptions.nsp (BroadcastOperator.broadcastOptions self)"
  "broadcastChannel (BroadcastOperator.broadcastOptions (with_parser p self)) =
     broadcastChannel (BroadcastOperator.broadcastOptions self)"
  "requestChannel (BroadcastOperator.broadcastOptions (with_parser p self)) =
     requestChannel (BroadcastOperator.broadcastOptions self)"
  "BroadcastOptions.parser (BroadcastOperator.broadcastOptions (with_parser p self)) = p"
  by (simp_all add: with_parser_def)

lemma message_with_parser:
  "terminal_message_sr t (with_parser p self) = terminal_message_sr t self"
  "terminal_message_pr mt t (with_parser p self) = terminal_message_pr mt t self"
  "emit_channel_sr (with_parser p self) = emit_channel_sr self"
  by (cases t;
      simp add: with_parser_fields emit_message_sr_def emit_message_pr_def emit_packet_def
        emit_opts_def emit_channel_sr_def socketsJoin_message_sr_def socketsLeave_message_sr_def
        disconnectSockets_message_sr_def socketsJoin_message_pr_def socketsLeave_message_pr_def
        disconnectSockets_message_pr_def)+

lemma erase_body_with_parser:
  "erase_body (terminal_sr t (with_parser p self) sb) = erase_body (terminal_sr t self sb)"
  "erase_body (terminal_pr mt t (with_parser p self) sb) = erase_body (terminal_pr mt t self sb)"
proof -
  show "erase_body (terminal_sr t (with_parser p self) sb) = erase_body (terminal_sr t self sb)"
  proof (cases "throws t")
    case True
    from terminal_throws [OF True, of self sb mt] terminal_throws [OF True, of "with_parser p self" sb mt]
    show ?thesis by (simp add: erase_body_def)
  next
    case False
    show ?thesis
      by (simp add: terminal_sr_sends [OF False] erase_body_def message_with_parser with_parser_fields
          split: terminal.splits)
  qed
  show "erase_body (terminal_pr mt t (with_parser p self) sb) = erase_body (terminal_pr mt t self sb)"
  proof (cases "throws t")
    case True
    from terminal_throws [OF True, of self sb mt] terminal_throws [OF True, of "with_parser p self" sb mt]
    show ?thesis by (simp add: erase_body_def)
  next
    case False
    show ?thesis
      by (simp add: terminal_pr_sends [OF False] erase_body_def message_with_parser with_parser_fields)
  qed
qed

lemma root_with_parser:
  "BroadcastOperator_new
     (Emitter.broadcastOptions
        (Emitter_new enc (Some \<lparr>key = k, EmitterOptions.parser = Some p\<rparr>) nsp_arg)) =
   with_parser p
     (BroadcastOperator_new
        (Emitter.broadcastOptions
           (Emitter_new enc (Some \<lparr>key = k, EmitterOptions.parser = None\<rparr>) nsp_arg)))"
  by (simp add: BroadcastOperator_new_def with_parser_def Emitter_new_def Let_def
      Object_assign_opts_def split: option.splits)

text \<open>
  C8, as stated, fails in the first version. With a parser that encodes every
  message as \<open>"X"\<close>, \<open>emit\<close> sends the body \<open>"X"\<close>, but \<open>socketsJoin\<close> and \<open>serverSideEmit\<close>
  send JSON texts, which the parser did not produce.
\<close>

theorem requests_of_first_version_bypass_parser:
  "Emitter_emit_sr
     (Emitter_new id (Some \<lparr>key = None, EmitterOptions.parser = Some \<lparr>encode = (\<lambda>m. JStr ''X'')\<rparr>\<rparr>) None)
     ''test'' [] [] =
     (Inr True,
      [\<lparr>body = JStr ''X'', contentType = ''application/octet-stream'',
        subject = Some ''socket.io#/#'', applicationProperties = None\<rparr>]) \<and>
   Emitter_socketsJoin_sr
     (Emitter_new id (Some \<lparr>key = None, EmitterOptions.parser = Some \<lparr>encode = (\<lambda>m. JStr ''X'')\<rparr>\<rparr>) None)
     (Single ''room1'') [] =
     (Inr (),
      [\<lparr>body = JStr ''{\"type\":2,\"opts\":{\"rooms\":[],\"except\":[]},\"rooms\":[\"room1\"]}'',
        contentType = ''application/octet-stream'',
        subject = Some ''socket.io-request#/#'', applicationProperties = None\<rparr>]) \<and>
   Emitter_serverSideEmit_sr
     (Emitter_new id (Some \<lparr>key = None, EmitterOptions.parser = Some \<lparr>encode = (\<lambda>m. JStr ''X'')\<rparr>\<rparr>) None)
     [JStr ''hello''] [] =
     (Inr (),
      [\<lparr>body = JStr ''{\"uid\":\"emitter\",\"type\":6,\"data\":[\"hello\"]}'',
        contentType = ''application/octet-stream'',
        subject = Some ''socket.io-request#/#'', applicationProperties = None\<rparr>]) \<and>
   map body (snd (Emitter_socketsJoin_sr
     (Emitter_new id (Some \<lparr>key = None, EmitterOptions.parser = Some \<lparr>encode = (\<lambda>m. JStr ''X'')\<rparr>\<rparr>) None)
     (Single ''room1'') [])) \<noteq>
     [encode \<lparr>encode = (\<lambda>m. JStr ''X'')\<rparr>
        (socketsJoin_message_sr
           (BroadcastOperator_new
              (Emitter.broadcastOptions
                 (Emitter_new id
                    (Some \<lparr>key = None, EmitterOptions.parser = Some \<lparr>encode = (\<lambda>m. JStr ''X'')\<rparr>\<rparr>) None)))
           (Single ''room1''))]"
proof -
  have json1: "JSON_stringify (JObject [(''type'', JNum 2),
      (''opts'', JObject [(''rooms'', JArray []), (''except'', JArray [])]),
      (''rooms'', JArray [JStr ''room1''])]) =
    JStr ''{\"type\":2,\"opts\":{\"rooms\":[],\"except\":[]},\"rooms\":[\"room1\"]}''"
    by code_simp
  have json2: "JSON_stringify (JObject [(''uid'', JStr ''emitter''), (''type'', JNum 6),
      (''data'', JArray [JStr ''hello''])]) =
    JStr ''{\"uid\":\"emitter\",\"type\":6,\"data\":[\"hello\"]}''"
    by code_simp
  have e: "Emitter.broadcastOptions
      (Emitter_new id (Some \<lparr>key = None, EmitterOptions.parser = Some \<lparr>encode = (\<lambda>m. JStr ''X'')\<rparr>\<rparr>) None) =
      \<lparr>BroadcastOptions.nsp = ''/'', broadcastChannel = ''socket.io#/#'',
       requestChannel = ''socket.io-request#/#'', parser = \<lparr>encode = (\<lambda>m. JStr ''X'')\<rparr>\<rparr>"
    by (simp add: Emitter_new_def Let_def Object_assign_opts_def key_string_def)
  show ?thesis
    by (simp add: Emitter_emit_sr_def Emitter_socketsJoin_sr_def e BroadcastOperator_new_def
        BroadcastOperator_emit_sr_def BroadcastOperator_socketsJoin_sr_def
        Emitter_serverSideEmit_sr_def RESERVED_EVENTS_def sendMessage_sr_def emit_channel_sr_def
        socketsJoin_message_sr_def serverSideEmit_message_sr_def spread_def last_arg_def UID_def
        json1 json2)
qed

text \<open>
  C8, amended. The root operator of an emitter made with the parser \<open>p\<close> is the root
  operator of the emitter made without one, with \<open>p\<close> in its options; refinements
  hand the parser on and do not depend on it. For every terminal call, the object
  built, the error thrown and everything sent but the body are the same whatever the
  parser is. In the second version the body of every message is the parser's
  encoding of the object; in the first version this holds for \<open>emit\<close> only, and the
  body of \<open>socketsJoin\<close>, \<open>socketsLeave\<close>, \<open>disconnectSockets\<close> and \<open>serverSideEmit\<close> is
  the JSON text of the object, whatever the parser is.
\<close>

theorem parser_changes_only_body:
  "BroadcastOperator_new
     (Emitter.broadcastOptions
        (Emitter_new enc (Some \<lparr>key = k, EmitterOptions.parser = Some p\<rparr>) nsp_arg)) =
   with_parser p
     (BroadcastOperator_new
        (Emitter.broadcastOptions
           (Emitter_new enc (Some \<lparr>key = k, EmitterOptions.parser = None\<rparr>) nsp_arg))) \<and>
   chain cs (with_parser p self) = with_parser p (chain cs self) \<and>
   terminal_message_sr t (with_parser p self) = terminal_message_sr t self \<and>
   terminal_message_pr mt t (with_parser p self) = terminal_message_pr mt t self \<and>
   erase_body (terminal_sr t (with_parser p self) sb) = erase_body (terminal_sr t self sb) \<and>
   erase_body (terminal_pr mt t (with_parser p self) sb) = erase_body (terminal_pr mt t self sb) \<and>
   (\<not> throws t \<longrightarrow>
      map body (snd (terminal_pr mt t (with_parser p self) sb)) =
        map body sb @ [encode p (terminal_message_pr mt t self)] \<and>
      map body (snd (terminal_sr t (with_parser p self) sb)) =
        map body sb @
          [case t of Emit ev args \<Rightarrow> encode p (terminal_message_sr t self)
           | _ \<Rightarrow> JSON_stringify (terminal_message_sr t self)]) \<and>
   Emitter_serverSideEmit_sr
       (Emitter_new enc (Some \<lparr>key = k, EmitterOptions.parser = Some p\<rparr>) nsp_arg) args sb =
     Emitter_serverSideEmit_sr
       (Emitter_new enc (Some \<lparr>key = k, EmitterOptions.parser = None\<rparr>) nsp_arg) args sb \<and>
   serverSideEmit_message_pr mt
       (Emitter_new enc (Some \<lparr>key = k, EmitterOptions.parser = Some p\<rparr>) nsp_arg) args =
     serverSideEmit_message_pr mt
       (Emitter_new enc (Some \<lparr>key = k, EmitterOptions.parser = None\<rparr>) nsp_arg) args \<and>
   erase_body (Emitter_serverSideEmit_pr mt
       (Emitter_new enc (Some \<lparr>key = k, EmitterOptions.parser = Some p\<rparr>) nsp_arg) args sb) =
     erase_body (Emitter_serverSideEmit_pr mt
       (Emitter_new enc (Some \<lparr>key = k, EmitterOptions.parser = None\<rparr>) nsp_arg) args sb) \<and>
   (typeof (last_arg args) \<noteq> ''function'' \<longrightarrow>
      map body (snd (Emitter_serverSideEmit_pr mt
          (Emitter_new enc (Some \<lparr>key = k, EmitterOptions.parser = Some p\<rparr>) nsp_arg) args sb)) =
        map body sb @
          [encode p (serverSideEmit_message_pr mt
             (Emitter_new enc (Some \<lparr>key = k, EmitterOptions.parser = None\<rparr>) nsp_arg) args)] \<and>
      map body (snd (Emitter_serverSideEmit_sr
          (Emitter_new enc (Some \<lparr>key = k, EmitterOptions.parser = Some p\<rparr>) nsp_arg) args sb)) =
        map body sb @ [JSON_stringify (serverSideEmit_message_sr args)])"
proof -
  let ?ep = "Emitter_new enc (Some \<lparr>key = k, EmitterOptions.parser = Some p\<rparr>) nsp_arg"
  let ?e = "Emitter_new enc (Some \<lparr>key = k, EmitterOptions.parser = None\<rparr>) nsp_arg"
  have e: "Emitter.nsp ?ep = Emitter.nsp ?e"
    "requestChannel (Emitter.broadcastOptions ?ep) = requestChannel (Emitter.broadcastOptions ?e)"
    "BroadcastOptions.parser (Emitter.broadcastOptions ?ep) = p"
    by (simp_all add: Emitter_new_def Let_def Object_assign_opts_def split: option.splits)
  have 1: "\<not> throws t \<longrightarrow>
      map body (snd (terminal_pr mt t (with_parser p self) sb)) =
        map body sb @ [encode p (terminal_message_pr mt t self)] \<and>
      map body (snd (terminal_sr t (with_parser p self) sb)) =
        map body sb @
          [case t of Emit ev args \<Rightarrow> encode p (terminal_message_sr t self)
           | _ \<Rightarrow> JSON_stringify (terminal_message_sr t self)]"
  proof (intro impI)
    assume n: "\<not> throws t"
    show "map body (snd (terminal_pr mt t (with_parser p self) sb)) =
        map body sb @ [encode p (terminal_message_pr mt t self)] \<and>
      map body (snd (terminal_sr t (with_parser p self) sb)) =
        map body sb @
          [case t of Emit ev args \<Rightarrow> encode p (terminal_message_sr t self)
           | _ \<Rightarrow> JSON_stringify (terminal_message_sr t self)]"
      by (simp add: terminal_pr_sends [OF n] terminal_sr_sends [OF n] message_with_parser
          with_parser_fields split: terminal.splits)
  qed
  have 2: "Emitter_serverSideEmit_sr ?ep args sb = Emitter_serverSideEmit_sr ?e args sb"
    by (simp add: Emitter_serverSideEmit_sr_def e)
  have 3: "serverSideEmit_message_pr mt ?ep args = serverSideEmit_message_pr mt ?e args"
    by (simp add: serverSideEmit_message_pr_def e)
  have 4: "erase_body (Emitter_serverSideEmit_pr mt ?ep args sb) =
      erase_body (Emitter_serverSideEmit_pr mt ?e args sb)"
    by (simp add: Emitter_serverSideEmit_pr_def Emitter_sendMessage_pr_def erase_body_def e Let_def)
  have 5: "typeof (last_arg args) \<noteq> ''function'' \<longrightarrow>
      map body (snd (Emitter_serverSideEmit_pr mt ?ep args sb)) =
        map body sb @ [encode p (serverSideEmit_message_pr mt ?e args)] \<and>
      map body (snd (Emitter_serverSideEmit_sr ?ep args sb)) =
        map body sb @ [JSON_stringify (serverSideEmit_message_sr args)]"
    by (simp add: Emitter_serverSideEmit_pr_def Emitter_sendMessage_pr_def
        Emitter_serverSideEmit_sr_def sendMessage_sr_def e 3 Let_def)
  from root_with_parser [of enc k p nsp_arg] chain_with_parser [of cs p self]
    message_with_parser(1) [of t p self] message_with_parser(2) [of mt t p self]
    erase_body_with_parser(1) [of t p self sb] erase_body_with_parser(2) [of mt t p self sb] 1 2 3 4 5
  show ?thesis
    by (intro conjI)
qed

theorem parser_changes_only_body_witness:
  "map body (snd (terminal_pr (\<lambda>t. 4) (SocketsJoin (Single ''room1''))
      (BroadcastOperator_new
         (Emitter.broadcastOptions
            (Emitter_new id (Some \<lparr>key = None, EmitterOptions.parser = Some \<lparr>encode = (\<lambda>m. JStr ''X'')\<rparr>\<rparr>)
               None))) [])) = [JStr ''X''] \<and>
   map body (snd (terminal_sr (SocketsJoin (Single ''room1''))
      (BroadcastOperator_new
         (Emitter.broadcastOptions
            (Emitter_new id (Some \<lparr>key = None, EmitterOptions.parser = Some \<lparr>encode = (\<lambda>m. JStr ''X'')\<rparr>\<rparr>)
               None))) [])) =
     [JStr ''{\"type\":2,\"opts\":{\"rooms\":[],\"except\":[]},\"rooms\":[\"room1\"]}'']"
proof -
  let ?p = "\<lparr>encode = (\<lambda>m. JStr ''X'')\<rparr>"
  let ?e = "Emitter_new id (Some \<lparr>key = None, EmitterOptions.parser = None\<rparr>) None"
  let ?t = "SocketsJoin (Single ''room1'')"
  have json1: "JSON_stringify (JObject [(''type'', JNum 2),
      (''opts'', JObject [(''rooms'', JArray []), (''except'', JArray [])]),
      (''rooms'', JArray [JStr ''room1''])]) =
    JStr ''{\"type\":2,\"opts\":{\"rooms\":[],\"except\":[]},\"rooms\":[\"room1\"]}''"
    by code_simp
  have n: "\<not> throws ?t"
    by simp
  note T = parser_changes_only_body [where enc = id and k = None and p = ?p and nsp_arg = None
      and self = "BroadcastOperator_new (Emitter.broadcastOptions ?e)" and t = ?t and sb = "[]"
      and mt = "\<lambda>t. 4" and cs = "[]" and args = "[]"]
  from T have root: "BroadcastOperator_new
     (Emitter.broadcastOptions
        (Emitter_new id (Some \<lparr>key = None, EmitterOptions.parser = Some ?p\<rparr>) None)) =
     with_parser ?p (BroadcastOperator_new (Emitter.broadcastOptions ?e))"
    by blast
  from T n have "map body (snd (terminal_pr (\<lambda>t. 4) ?t
        (with_parser ?p (BroadcastOperator_new (Emitter.broadcastOptions ?e))) [])) =
      map body [] @ [encode ?p (terminal_message_pr (\<lambda>t. 4) ?t
        (BroadcastOperator_new (Emitter.broadcastOptions ?e)))]"
    and "map body (snd (terminal_sr ?t
        (with_parser ?p (BroadcastOperator_new (Emitter.broadcastOptions ?e))) [])) =
      map body [] @ [JSON_stringify (terminal_message_sr ?t
        (BroadcastOperator_new (Emitter.broadcastOptions ?e)))]"
    by simp_all
  then show ?thesis
    unfolding root
    by (simp add: socketsJoin_message_sr_def BroadcastOperator_new_def spread_def json1)
qed

subsection \<open>Origin tag and namespace\<close>

lemma terminal_message_pr_uid_nsp:
  "jget (terminal_message_pr mt t self) ''uid'' = JStr ''emitter''"
  "jget (terminal_message_pr mt t self) ''nsp'' =
     JStr (BroadcastOptions.nsp (BroadcastOperator.broadcastOptions self))"
  by (cases t;
      simp add: emit_message_pr_fields socketsJoin_message_pr_fields socketsLeave_message_pr_fields
        disconnectSockets_message_pr_def UID_def)+

lemma request_sr_no_uid:
  "\<not> jhas (socketsJoin_message_sr self rs) ''uid''"
  "\<not> jhas (socketsJoin_message_sr self rs) ''nsp''"
  "\<not> jhas (socketsLeave_message_sr self rs) ''uid''"
  "\<not> jhas (socketsLeave_message_sr self rs) ''nsp''"
  "\<not> jhas (disconnectSockets_message_sr self cl) ''uid''"
  "\<not> jhas (disconnectSockets_message_sr self cl) ''nsp''"
  by (simp_all add: socketsJoin_message_sr_def socketsLeave_message_sr_def
      disconnectSockets_message_sr_def)

text \<open>
  C9, as stated, fails in the first version: the requests of \<open>socketsJoin\<close> and
  \<open>disconnectSockets\<close> have neither a \<open>uid\<close> nor a \<open>nsp\<close> property, and the JSON text
  sent holds the type, the criteria and the target only.
\<close>

theorem requests_of_first_version_without_uid:
  "jhas (socketsJoin_message_sr
           (BroadcastOperator_new (Emitter.broadcastOptions (Emitter_new id None None)))
           (Single ''room1'')) ''uid'' = False \<and>
   jhas (socketsJoin_message_sr
           (BroadcastOperator_new (Emitter.broadcastOptions (Emitter_new id None None)))
           (Single ''room1'')) ''nsp'' = False \<and>
   jget (socketsJoin_message_sr
           (BroadcastOperator_new (Emitter.broadcastOptions (Emitter_new id None None)))
           (Single ''room1'')) ''uid'' \<noteq> JStr ''emitter'' \<and>
   Emitter_socketsJoin_sr (Emitter_new id None None) (Single ''room1'') [] =
     (Inr (),
      [\<lparr>body = JStr ''{\"type\":2,\"opts\":{\"rooms\":[],\"except\":[]},\"rooms\":[\"room1\"]}'',
        contentType = ''application/octet-stream'',
        subject = Some ''socket.io-request#/#'', applicationProperties = None\<rparr>]) \<and>
   Emitter_disconnectSockets_sr (Emitter_new id None None) (Some True) [] =
     (Inr (),
      [\<lparr>body = JStr ''{\"type\":4,\"opts\":{\"rooms\":[],\"except\":[]},\"close\":true}'',
        contentType = ''application/octet-stream'',
        subject = Some ''socket.io-request#/#'', applicationProperties = None\<rparr>])"
proof -
  have json1: "JSON_stringify (JObject [(''type'', JNum 2),
      (''opts'', JObject [(''rooms'', JArray []), (''except'', JArray [])]),
      (''rooms'', JArray [JStr ''room1''])]) =
    JStr ''{\"type\":2,\"opts\":{\"rooms\":[],\"except\":[]},\"rooms\":[\"room1\"]}''"
    by code_simp
  have json2: "JSON_stringify (JObject [(''type'', JNum 4),
      (''opts'', JObject [(''rooms'', JArray []), (''except'', JArray [])]),
      (''close'', JBool True)]) =
    JStr ''{\"type\":4,\"opts\":{\"rooms\":[],\"except\":[]},\"close\":true}''"
    by code_simp
  show ?thesis
    by (simp add: Emitter_socketsJoin_sr_def Emitter_disconnectSockets_sr_def Emitter_new_default
        BroadcastOperator_new_def BroadcastOperator_socketsJoin_sr_def
        BroadcastOperator_disconnectSockets_sr_def sendMessage_sr_def socketsJoin_message_sr_def
        disconnectSockets_message_sr_def spread_def json1 json2)
qed

text \<open>
  C9, amended. In the second version the object of every terminal call of an
  operator, and of \<open>serverSideEmit\<close>, has \<open>uid = "emitter"\<close> and \<open>nsp\<close>, the namespace, and
  the message sent has the namespace as the application property \<open>nsp\<close>. In the
  first version the broadcast is \<open>["emitter", packet, opts]\<close> with the namespace in
  \<open>packet.nsp\<close>, the object of \<open>serverSideEmit\<close> has \<open>uid = "emitter"\<close> and no \<open>nsp\<close>, and
  the objects of \<open>socketsJoin\<close>, \<open>socketsLeave\<close> and \<open>disconnectSockets\<close> have neither
  \<open>uid\<close> nor \<open>nsp\<close>; every message of an operator of an emitter that the constructor
  made carries the namespace in its subject, \<open>key#nsp#...\<close> or \<open>key-request#nsp#\<close>.
\<close>

theorem origin_tag_and_namespace:
  assumes "BroadcastOperator.broadcastOptions self =
             Emitter.broadcastOptions (Emitter_new enc opts_arg nsp_arg)"
    and "\<not> throws t"
  shows "jget (terminal_message_pr mt t self) ''uid'' = JStr ''emitter'' \<and>
         jget (terminal_message_pr mt t self) ''nsp'' =
           JStr (Emitter.nsp (Emitter_new enc opts_arg nsp_arg)) \<and>
         snd (terminal_pr mt t self sb) =
           sb @ [\<lparr>body = encode (BroadcastOptions.parser (BroadcastOperator.broadcastOptions self))
                            (terminal_message_pr mt t self),
                   contentType = ''application/octet-stream'',
                   subject = None,
                   applicationProperties =
                     Some [(''nsp'', JStr (Emitter.nsp (Emitter_new enc opts_arg nsp_arg)))]\<rparr>] \<and>
         jget (serverSideEmit_message_pr mt (Emitter_new enc opts_arg nsp_arg) args) ''uid'' =
           JStr ''emitter'' \<and>
         jget (serverSideEmit_message_pr mt (Emitter_new enc opts_arg nsp_arg) args) ''nsp'' =
           JStr (Emitter.nsp (Emitter_new enc opts_arg nsp_arg)) \<and>
         jnth (emit_message_sr self ev args) 0 = JStr ''emitter'' \<and>
         jget (jnth (emit_message_sr self ev args) 1) ''nsp'' =
           JStr (Emitter.nsp (Emitter_new enc opts_arg nsp_arg)) \<and>
         jget (serverSideEmit_message_sr args) ''uid'' = JStr ''emitter'' \<and>
         \<not> jhas (serverSideEmit_message_sr args) ''nsp'' \<and>
         \<not> jhas (socketsJoin_message_sr self rs) ''uid'' \<and>
         \<not> jhas (socketsJoin_message_sr self rs) ''nsp'' \<and>
         \<not> jhas (socketsLeave_message_sr self rs) ''uid'' \<and>
         \<not> jhas (socketsLeave_message_sr self rs) ''nsp'' \<and>
         \<not> jhas (disconnectSockets_message_sr self cl) ''uid'' \<and>
         \<not> jhas (disconnectSockets_message_sr self cl) ''nsp'' \<and>
         map subject (snd (terminal_sr t self sb)) =
           map subject sb @
             [Some (case t of
                      Emit ev' args' \<Rightarrow>
                        key_string (key (opts (Emitter_new enc opts_arg nsp_arg))) @ ''#'' @
                        Emitter.nsp (Emitter_new enc opts_arg nsp_arg) @ ''#'' @
                        (if length (rooms self) = 1 then hd (rooms self) @ ''#'' else [])
                    | _ \<Rightarrow>
                        key_string (key (opts (Emitter_new enc opts_arg nsp_arg))) @ ''-request#'' @
                        Emitter.nsp (Emitter_new enc opts_arg nsp_arg) @ ''#'')]"
proof -
  let ?e = "Emitter_new enc opts_arg nsp_arg"
  have n: "BroadcastOptions.nsp (BroadcastOperator.broadcastOptions self) = Emitter.nsp ?e"
    by (simp add: assms(1) Emitter_new_fields)
  have 1: "jget (terminal_message_pr mt t self) ''uid'' = JStr ''emitter''"
    and 2: "jget (terminal_message_pr mt t self) ''nsp'' = JStr (Emitter.nsp ?e)"
    by (simp_all add: terminal_message_pr_uid_nsp n)
  have 3: "snd (terminal_pr mt t self sb) =
      sb @ [\<lparr>body = encode (BroadcastOptions.parser (BroadcastOperator.broadcastOptions self))
                       (terminal_message_pr mt t self),
              contentType = ''application/octet-stream'',
              subject = None,
              applicationProperties = Some [(''nsp'', JStr (Emitter.nsp ?e))]\<rparr>]"
    by (simp add: terminal_pr_sends [OF assms(2)] n)
  have 4: "jget (serverSideEmit_message_pr mt ?e args) ''uid'' = JStr ''emitter''"
    and 5: "jget (serverSideEmit_message_pr mt ?e args) ''nsp'' = JStr (Emitter.nsp ?e)"
    by (simp_all add: serverSideEmit_message_pr_fields)
  have 6: "jnth (emit_message_sr self ev args) 0 = JStr ''emitter''"
    and 7: "jget (jnth (emit_message_sr self ev args) 1) ''nsp'' = JStr (Emitter.nsp ?e)"
    by (simp_all add: emit_message_sr_def UID_def emit_packet_fields n)
  have 8: "jget (serverSideEmit_message_sr args) ''uid'' = JStr ''emitter''"
    and 9: "\<not> jhas (serverSideEmit_message_sr args) ''nsp''"
    by (simp_all add: serverSideEmit_message_sr_def UID_def)
  have 10: "map subject (snd (terminal_sr t self sb)) =
      map subject sb @
        [Some (case t of
                 Emit ev' args' \<Rightarrow>
                   key_string (key (opts ?e)) @ ''#'' @ Emitter.nsp ?e @ ''#'' @
                   (if length (rooms self) = 1 then hd (rooms self) @ ''#'' else [])
               | _ \<Rightarrow> key_string (key (opts ?e)) @ ''-request#'' @ Emitter.nsp ?e @ ''#'')]"
    by (simp add: terminal_sr_sends [OF assms(2)] emit_channel_sr_eq assms(1) Emitter_new_fields
        split: terminal.splits)
  note r = request_sr_no_uid(1,2,3,4) [of self rs] request_sr_no_uid(5,6) [of self cl]
  from 1 2 3 4 5 6 7 8 9 10 r show ?thesis
    by (intro conjI)
qed

theorem origin_tag_and_namespace_witness:
  "snd (terminal_pr (\<lambda>t. 6) (DisconnectSockets (Some True))
          (BroadcastOperator_new
             (Emitter.broadcastOptions (Emitter_of id (Emitter_new id None None) ''admin''))) []) =
     [\<lparr>body = JObject
                [(''uid'', JStr ''emitter''), (''type'', JNum 6),
                 (''data'', JObject
                    [(''opts'', JObject [(''rooms'', JArray []), (''except'', JArray []),
                                         (''flags'', JObject [])]),
                     (''close'', JBool True)]),
                 (''nsp'', JStr ''/admin'')],
       contentType = ''application/octet-stream'',
       subject = None,
       applicationProperties = Some [(''nsp'', JStr ''/admin'')]\<rparr>] \<and>
   map subject (snd (terminal_sr (DisconnectSockets (Some True))
          (BroadcastOperator_new
             (Emitter.broadcastOptions (Emitter_of id (Emitter_new id None None) ''admin''))) [])) =
     [Some ''socket.io-request#/admin#'']"
proof -
  let ?o = "\<lparr>key = Some ''socket.io'', EmitterOptions.parser = Some \<lparr>encode = id\<rparr>\<rparr>"
  let ?e = "Emitter_new id (Some ?o) (Some ''/admin'')"
  let ?t = "DisconnectSockets (Some True)"
  have e: "Emitter_of id (Emitter_new id None None) ''admin'' = ?e"
    by (simp add: Emitter_of_def Emitter_new_default)
  have h: "BroadcastOperator.broadcastOptions (BroadcastOperator_new (Emitter.broadcastOptions ?e)) =
      Emitter.broadcastOptions ?e"
    by (simp add: BroadcastOperator_new_def)
  have n: "\<not> throws ?t"
    by simp
  note T = origin_tag_and_namespace [OF h n, where sb = "[]" and mt = "\<lambda>t. 6" and args = "[]"
      and ev = "''x''" and rs = "Single ''r''" and cl = True]
  from T have A: "snd (terminal_pr (\<lambda>t. 6) ?t (BroadcastOperator_new (Emitter.broadcastOptions ?e)) []) =
      [] @ [\<lparr>body = encode (BroadcastOptions.parser (BroadcastOperator.broadcastOptions
                                (BroadcastOperator_new (Emitter.broadcastOptions ?e))))
                       (terminal_message_pr (\<lambda>t. 6) ?t (BroadcastOperator_new (Emitter.broadcastOptions ?e))),
              contentType = ''application/octet-stream'',
              subject = None,
              applicationProperties = Some [(''nsp'', JStr (Emitter.nsp ?e))]\<rparr>]"
    by blast
  from T have B: "map subject (snd (terminal_sr ?t (BroadcastOperator_new (Emitter.broadcastOptions ?e)) [])) =
      map subject [] @
        [Some (key_string (key (opts ?e)) @ ''-request#'' @ Emitter.nsp ?e @ ''#'')]"
    by simp
  from A B show ?thesis
    unfolding e
    by (simp add: Emitter_new_fields Emitter_new_key Emitter_new_parser key_string_def
        BroadcastOperator_new_def disconnectSockets_message_pr_def spread_def UID_def)
qed

end
